theory Spec2Isabelle
  imports Complex_Main "HOL-Library.Word"
begin

unbundle bit_operations_syntax

section \<open>Data model of the material system (src/engine/renderer/Material.cpp)\<close>

text \<open>
  The embedding follows Material.cpp. The headers that declare the structs
  (Material.h, tr_local.h) are not part of the sources at hand, so every record below
  lists exactly the members that Material.cpp reads or writes, under the names used
  there. Counters and offsets are \<^verbatim>\<open>uint32_t\<close> in the source and \<^typ>\<open>nat\<close> here:
  the model covers the runs in which no counter reaches \<open>2 ^ 32\<close> (a materials buffer
  below 16 GiB), where no addition of the source wraps around. Fixed-size C arrays that
  are indexed by a stage or view number are total functions from the index.
\<close>

type_synonym u32 = "32 word"

subsection \<open>Enumerations\<close>

text \<open>
  Each enumeration has the enumerators that Material.cpp names and one more constructor
  for the values it only reaches through a \<^verbatim>\<open>default:\<close> label.
\<close>

datatype colorGen_t =
    CGEN_IDENTITY | CGEN_ONE_MINUS_VERTEX | CGEN_IDENTITY_LIGHTING | CGEN_VERTEX
  | CGEN_CONST | CGEN_ENTITY | CGEN_ONE_MINUS_ENTITY
  | CGEN_WAVEFORM | CGEN_CUSTOM_RGB | CGEN_CUSTOM_RGBs
  | CGEN_OTHER nat

datatype alphaGen_t =
    AGEN_IDENTITY | AGEN_ONE_MINUS_VERTEX | AGEN_VERTEX | AGEN_CONST
  | AGEN_ENTITY | AGEN_ONE_MINUS_ENTITY
  | AGEN_WAVEFORM | AGEN_CUSTOM
  | AGEN_OTHER nat

datatype texMod_t =
    TMOD_NONE | TMOD_SCALE | TMOD_TRANSFORM
  | TMOD_TURBULENT | TMOD_ENTITY_TRANSLATE | TMOD_SCROLL
  | TMOD_STRETCH | TMOD_ROTATE
  | TMOD_SCROLL2 | TMOD_SCALE2 | TMOD_CENTERSCALE | TMOD_SHEAR
  | TMOD_ROTATE2
  | TMOD_OTHER nat

datatype genFunc_t = GF_NONE | GF_OTHER nat

text \<open>The three families of function pointers stored in a shader stage.\<close>

datatype shaderBinder_t =
    BindShaderNONE | BindShaderNOP | BindShaderGeneric3D | BindShaderLightMapping
  | BindShaderReflection | BindShaderSkybox | BindShaderScreen | BindShaderHeatHaze
  | BindShaderLiquid | BindShaderFog

datatype materialProcessor_t =
    ProcessMaterialNONE | ProcessMaterialNOP | ProcessMaterialGeneric3D
  | ProcessMaterialLightMapping | ProcessMaterialReflection | ProcessMaterialSkybox
  | ProcessMaterialScreen | ProcessMaterialHeatHaze | ProcessMaterialLiquid
  | ProcessMaterialFog

datatype surfaceDataUpdater_t =
    UpdateSurfaceDataNONE | UpdateSurfaceDataNOP | UpdateSurfaceDataGeneric3D
  | UpdateSurfaceDataLightMapping | UpdateSurfaceDataReflection | UpdateSurfaceDataSkybox
  | UpdateSurfaceDataScreen | UpdateSurfaceDataHeatHaze | UpdateSurfaceDataLiquid
  | UpdateSurfaceDataFog

text \<open>The \<^verbatim>\<open>GLShader\<close> objects a material processor can store in \<^verbatim>\<open>material.shader\<close>.\<close>

datatype GLShader =
    gl_genericShaderMaterial | gl_lightMappingShaderMaterial | gl_reflectionShaderMaterial
  | gl_skyboxShaderMaterial | gl_screenShaderMaterial | gl_heatHazeShaderMaterial
  | gl_liquidShaderMaterial | gl_fogQuake3ShaderMaterial

subsection \<open>Shader stages\<close>

record texModInfo_t =
  tmod_type :: texMod_t
  wave_func :: genFunc_t
  sExp_numOps :: nat
  tExp_numOps :: nat
  rExp_numOps :: nat

record textureBundle_t =
  numTexMods :: nat
  texMods :: "nat \<Rightarrow> texModInfo_t"
  isVideoMap :: bool
  numImages :: nat

record shaderStage_t =
  rgbGen :: colorGen_t
  alphaGen :: alphaGen_t
  stage_bundle :: "textureBundle_t list"
  ifExp_numOps :: nat
  alphaExp_numOps :: nat
  alphaTestExp_numOps :: nat
  rgbExp_numOps :: nat
  redExp_numOps :: nat
  greenExp_numOps :: nat
  blueExp_numOps :: nat
  deformMagnitudeExp_numOps :: nat
  depthScaleExp_numOps :: nat
  fogDensityExp_numOps :: nat
  fresnelBiasExp_numOps :: nat
  fresnelPowerExp_numOps :: nat
  fresnelScaleExp_numOps :: nat
  normalIntensityExp_numOps :: nat
  refractionIndexExp_numOps :: nat
  dynamic :: bool
  colorDynamic :: bool
  texMatricesDynamic :: bool
  texturesDynamic :: bool
  stage_stateBits :: u32
  stage_shaderBinder :: shaderBinder_t
  materialProcessor :: materialProcessor_t
  surfaceDataUpdater :: surfaceDataUpdater_t
  useMaterialSystem :: bool

subsection \<open>ComputeDynamics (Material.cpp, lines 55 to 191)\<close>

text \<open>The first switch: \<^verbatim>\<open>colorDynamic\<close> is reset and then set from \<^verbatim>\<open>rgbGen\<close>.\<close>

fun rgbGen_dynamic :: "colorGen_t \<Rightarrow> bool" where
  "rgbGen_dynamic CGEN_WAVEFORM = True"
| "rgbGen_dynamic CGEN_CUSTOM_RGB = True"
| "rgbGen_dynamic CGEN_CUSTOM_RGBs = True"
| "rgbGen_dynamic _ = False"

text \<open>The second switch sets \<^verbatim>\<open>colorDynamic\<close> (again) from \<^verbatim>\<open>alphaGen\<close>.\<close>

fun alphaGen_dynamic :: "alphaGen_t \<Rightarrow> bool" where
  "alphaGen_dynamic AGEN_WAVEFORM = True"
| "alphaGen_dynamic AGEN_CUSTOM = True"
| "alphaGen_dynamic _ = False"

text \<open>
  The body of the loop over \<^verbatim>\<open>i < bundle.numTexMods\<close>: whether texture modifier \<open>i\<close>
  of the bundle sets \<^verbatim>\<open>texMatricesDynamic\<close>. The \<^verbatim>\<open>TMOD_STRETCH\<close> case reads
  \<^verbatim>\<open>bundle.texMods->wave.func\<close>, which is the wave of element 0 of the array, whatever
  \<open>i\<close> is; the other cases read element \<open>i\<close>.
\<close>

definition texMod_dynamic :: "textureBundle_t \<Rightarrow> nat \<Rightarrow> bool" where
  "texMod_dynamic b i =
     (case tmod_type (texMods b i) of
        TMOD_NONE \<Rightarrow> False
      | TMOD_SCALE \<Rightarrow> False
      | TMOD_TRANSFORM \<Rightarrow> False
      | TMOD_TURBULENT \<Rightarrow> True
      | TMOD_ENTITY_TRANSLATE \<Rightarrow> True
      | TMOD_SCROLL \<Rightarrow> True
      | TMOD_STRETCH \<Rightarrow> wave_func (texMods b 0) \<noteq> GF_NONE
      | TMOD_ROTATE \<Rightarrow> True
      | TMOD_SCROLL2 \<Rightarrow> sExp_numOps (texMods b i) \<noteq> 0 \<or> tExp_numOps (texMods b i) \<noteq> 0
      | TMOD_SCALE2 \<Rightarrow> sExp_numOps (texMods b i) \<noteq> 0 \<or> tExp_numOps (texMods b i) \<noteq> 0
      | TMOD_CENTERSCALE \<Rightarrow> sExp_numOps (texMods b i) \<noteq> 0 \<or> tExp_numOps (texMods b i) \<noteq> 0
      | TMOD_SHEAR \<Rightarrow> sExp_numOps (texMods b i) \<noteq> 0 \<or> tExp_numOps (texMods b i) \<noteq> 0
      | TMOD_ROTATE2 \<Rightarrow> rExp_numOps (texMods b i) \<noteq> 0
      | TMOD_OTHER _ \<Rightarrow> False)"

text \<open>The two nested loops over the bundles and their texture modifiers.\<close>

definition bundle_texMods_dynamic :: "textureBundle_t \<Rightarrow> bool" where
  "bundle_texMods_dynamic b = (\<exists>i \<in> set [0 ..< numTexMods b]. texMod_dynamic b i)"

definition texMods_dynamic :: "textureBundle_t list \<Rightarrow> bool" where
  "texMods_dynamic bs = (\<exists>b \<in> set bs. bundle_texMods_dynamic b)"

text \<open>The last loop over the bundles: a video map or more than one image.\<close>

definition bundles_texturesDynamic :: "textureBundle_t list \<Rightarrow> bool" where
  "bundles_texturesDynamic bs = (\<exists>b \<in> set bs. isVideoMap b \<or> numImages b > 1)"

text \<open>The chain of assignments to \<^verbatim>\<open>pStage->dynamic\<close> from the expressions.\<close>

definition exps_dynamic :: "shaderStage_t \<Rightarrow> bool" where
  "exps_dynamic st =
     (ifExp_numOps st \<noteq> 0
      \<or> alphaExp_numOps st \<noteq> 0 \<or> alphaTestExp_numOps st \<noteq> 0
      \<or> rgbExp_numOps st \<noteq> 0 \<or> redExp_numOps st \<noteq> 0 \<or> greenExp_numOps st \<noteq> 0
      \<or> blueExp_numOps st \<noteq> 0
      \<or> deformMagnitudeExp_numOps st \<noteq> 0
      \<or> depthScaleExp_numOps st \<noteq> 0 \<or> fogDensityExp_numOps st \<noteq> 0
      \<or> fresnelBiasExp_numOps st \<noteq> 0 \<or> fresnelPowerExp_numOps st \<noteq> 0
      \<or> fresnelScaleExp_numOps st \<noteq> 0 \<or> normalIntensityExp_numOps st \<noteq> 0
      \<or> refractionIndexExp_numOps st \<noteq> 0)"

definition ComputeDynamics :: "shaderStage_t \<Rightarrow> shaderStage_t" where
  "ComputeDynamics pStage =
     (let st1 = pStage\<lparr>colorDynamic := False\<rparr>;
          st2 = (if rgbGen_dynamic (rgbGen st1) then st1\<lparr>colorDynamic := True\<rparr> else st1);
          st3 = (if alphaGen_dynamic (alphaGen st2) then st2\<lparr>colorDynamic := True\<rparr> else st2);
          st4 = (if texMods_dynamic (stage_bundle st3) then st3\<lparr>texMatricesDynamic := True\<rparr> else st3);
          st5 = (if bundles_texturesDynamic (stage_bundle st4)
                 then st4\<lparr>texturesDynamic := True\<rparr> else st4);
          st6 = st5\<lparr>dynamic := dynamic st5 \<or> exps_dynamic st5\<rparr>
      in st6\<lparr>dynamic := dynamic st6 \<or> colorDynamic st6 \<or> texMatricesDynamic st6
                           \<or> texturesDynamic st6\<rparr>)"

subsection \<open>Draw commands and AddTexture (Material.cpp, lines 1946 to 1952)\<close>

record GLIndirectCommand =
  count :: nat
  firstIndex :: nat
  baseInstance :: nat

text \<open>
  \<^verbatim>\<open>cmd.textures\<close> is an array of \<^verbatim>\<open>MAX_DRAWCOMMAND_TEXTURES\<close> texture pointers, of
  which the first \<^verbatim>\<open>textureCount\<close> are in use; a texture pointer is a number.
\<close>

record DrawCommand =
  cmd :: GLIndirectCommand
  cmd_materialsSSBOOffset :: nat
  textures :: "nat \<Rightarrow> nat"
  textureCount :: nat



subsection \<open>Materials\<close>

text \<open>
  \<^verbatim>\<open>struct Material\<close>. Pointers to vertex and index buffers, textures and draw surfaces
  are numbers; a draw surface pointer is the index of the surface in
  \<^verbatim>\<open>tr.refdef.drawSurfs\<close>. \<^verbatim>\<open>shader\<close> is the \<^verbatim>\<open>GLShader*\<close> that the material
  processor stores, \<open>None\<close> for a null pointer. The members that the material
  processors copy from the stage for the shader permutation (\<^verbatim>\<open>program\<close>,
  \<^verbatim>\<open>deformIndex\<close>, the \<^verbatim>\<open>enable...\<close> flags, \<^verbatim>\<open>fog\<close>) are read by the
  \<^verbatim>\<open>BindShader\<close> functions only and are left out.
\<close>

record Material =
  mat_id :: nat
  mat_sort :: nat
  useSync :: bool
  syncMaterial :: nat
  stateBits :: u32
  shaderBinder :: shaderBinder_t
  cullType :: nat
  usePolygonOffset :: bool
  vbo :: nat
  ibo :: nat
  bspSurface :: bool
  shader :: "GLShader option"
  totalDrawSurfCount :: nat
  totalStaticDrawSurfCount :: nat
  totalDynamicDrawSurfCount :: nat
  currentStaticDrawSurfCount :: nat
  currentDynamicDrawSurfCount :: nat
  staticMaterialsSSBOOffset :: nat
  dynamicMaterialsSSBOOffset :: nat
  drawSurfs :: "nat list"
  drawCommands :: "DrawCommand list"
  surfaceCommandBatchOffset :: nat
  surfaceCommandBatchCount :: nat
  globalID :: nat
  mat_textures :: "nat list"
  texturesResident :: bool

subsection \<open>GenerateWorldCommandBuffer: batch counts and offsets (lines 770 to 791)\<close>

text \<open>
  \<^verbatim>\<open>SURFACE_COMMANDS_PER_BATCH\<close> is defined in Material.h and is the parameter \<open>N\<close>.
  The loop state is \<^verbatim>\<open>batchOffset\<close>, \<^verbatim>\<open>globalID\<close> and \<^verbatim>\<open>totalBatchCount\<close>.
\<close>

definition batchCount_of :: "nat \<Rightarrow> nat \<Rightarrow> nat" where
  "batchCount_of N cmdCount =
     (if cmdCount mod N = 0 then cmdCount div N else cmdCount div N + 1)"

fun batch_materials ::
  "nat \<Rightarrow> Material list \<Rightarrow> nat \<times> nat \<times> nat \<Rightarrow> Material list \<times> (nat \<times> nat \<times> nat)" where
  "batch_materials N [] acc = ([], acc)"
| "batch_materials N (material # ms) (batchOffset, gID, totalBC) =
     (let cmdCount = length (drawCommands material);
          batchCount = batchCount_of N cmdCount;
          material' = material\<lparr>surfaceCommandBatchOffset := batchOffset,
                                surfaceCommandBatchCount := batchCount,
                                globalID := gID\<rparr>;
          (ms', acc') = batch_materials N ms (batchOffset + batchCount, gID + 1, totalBC + batchCount)
      in (material' # ms', acc'))"

text \<open>
  The outer loop over the three packs, on the \<^verbatim>\<open>materialPacks\<close> array and
  \<^verbatim>\<open>totalBatchCount\<close>. The rest of \<^verbatim>\<open>GenerateWorldCommandBuffer\<close> fills the GPU
  buffers from these members and does not assign them again.
\<close>

definition GenerateWorldCommandBuffer_batches ::
  "nat \<Rightarrow> (nat \<Rightarrow> Material list) \<Rightarrow> (nat \<Rightarrow> Material list) \<times> nat" where
  "GenerateWorldCommandBuffer_batches N packs =
     (let (p0, acc0) = batch_materials N (packs 0) (0, 0, 0);
          (p1, acc1) = batch_materials N (packs 1) acc0;
          (p2, acc2) = batch_materials N (packs 2) acc1
      in (packs(0 := p0, 1 := p1, 2 := p2), snd (snd acc2)))"

text \<open>All materials in pack order, as the nested range-for loops visit them.\<close>

definition all_materials :: "(nat \<Rightarrow> Material list) \<Rightarrow> Material list" where
  "all_materials packs = packs 0 @ packs 1 @ packs 2"

text \<open>The batch count that the loop body computes for one material.\<close>

definition material_batchCount :: "nat \<Rightarrow> Material \<Rightarrow> nat" where
  "material_batchCount N m = batchCount_of N (length (drawCommands m))"

subsection \<open>Default-constructed materials\<close>

text \<open>
  Modelled from the spec: the member initialisers of \<^verbatim>\<open>struct Material\<close> are in
  Material.h, which is not among the sources. \<^verbatim>\<open>Material material;\<close> gives a material
  with no ordering dependency, no shader, no surfaces or commands and all counters and
  offsets zero (the spec's "optional dependency on another Material", "running counts of
  static/dynamic instances").
\<close>

definition Material_default :: Material where
  "Material_default =
     \<lparr>mat_id = 0, mat_sort = 0, useSync = False, syncMaterial = 0, stateBits = 0,
      shaderBinder = BindShaderNONE, cullType = 0, usePolygonOffset = False,
      vbo = 0, ibo = 0, bspSurface = False, shader = None,
      totalDrawSurfCount = 0, totalStaticDrawSurfCount = 0, totalDynamicDrawSurfCount = 0,
      currentStaticDrawSurfCount = 0, currentDynamicDrawSurfCount = 0,
      staticMaterialsSSBOOffset = 0, dynamicMaterialsSSBOOffset = 0,
      drawSurfs = [], drawCommands = [],
      surfaceCommandBatchOffset = 0, surfaceCommandBatchCount = 0, globalID = 0,
      mat_textures = [], texturesResident = False\<rparr>"

definition DrawCommand_default :: DrawCommand where
  "DrawCommand_default =
     \<lparr>cmd = \<lparr>count = 0, firstIndex = 0, baseInstance = 0\<rparr>,
      cmd_materialsSSBOOffset = 0, textures = (\<lambda>_. 0), textureCount = 0\<rparr>"

subsection \<open>Stages used as concrete inputs\<close>

text \<open>
  A stage with identity colour and alpha generators, no bundles and no expressions, and a
  texture modifier that does nothing; concrete inputs are built from them.
\<close>

definition texModInfo_none :: texModInfo_t where
  "texModInfo_none =
     \<lparr>tmod_type = TMOD_NONE, wave_func = GF_NONE, sExp_numOps = 0, tExp_numOps = 0,
      rExp_numOps = 0\<rparr>"

definition shaderStage_plain :: shaderStage_t where
  "shaderStage_plain =
     \<lparr>rgbGen = CGEN_IDENTITY, alphaGen = AGEN_IDENTITY, stage_bundle = [],
      ifExp_numOps = 0, alphaExp_numOps = 0, alphaTestExp_numOps = 0, rgbExp_numOps = 0,
      redExp_numOps = 0, greenExp_numOps = 0, blueExp_numOps = 0,
      deformMagnitudeExp_numOps = 0, depthScaleExp_numOps = 0, fogDensityExp_numOps = 0,
      fresnelBiasExp_numOps = 0, fresnelPowerExp_numOps = 0, fresnelScaleExp_numOps = 0,
      normalIntensityExp_numOps = 0, refractionIndexExp_numOps = 0,
      dynamic = False, colorDynamic = False, texMatricesDynamic = False,
      texturesDynamic = False, stage_stateBits = 0,
      stage_shaderBinder = BindShaderGeneric3D,
      materialProcessor = ProcessMaterialGeneric3D,
      surfaceDataUpdater = UpdateSurfaceDataGeneric3D, useMaterialSystem = False\<rparr>"

text \<open>
  A stage whose only bundle has one image and two texture modifiers, a plain scale
  followed by a stretch driven by a waveform (\<^verbatim>\<open>tcMod scale\<close>, then
  \<^verbatim>\<open>tcMod stretch sin ...\<close> in a shader script).
\<close>

definition scale_then_stretch_bundle :: textureBundle_t where
  "scale_then_stretch_bundle =
     \<lparr>numTexMods = 2,
      texMods = (\<lambda>i. if i = 1 then texModInfo_none\<lparr>tmod_type := TMOD_STRETCH, wave_func := GF_OTHER 1\<rparr>
                     else texModInfo_none\<lparr>tmod_type := TMOD_SCALE\<rparr>),
      isVideoMap = False, numImages = 1\<rparr>"

definition scale_then_stretch_stage :: shaderStage_t where
  "scale_then_stretch_stage = shaderStage_plain\<lparr>stage_bundle := [scale_then_stretch_bundle]\<rparr>"

text \<open>
  The time-varying texture modifiers as the specification lists them: turbulent,
  entity-translate, scroll, rotating, a stretch with a waveform, and the scroll2, scale2,
  centerscale, shear and rotate2 modifiers that are driven by an expression. Each
  modifier is judged by its own members.
\<close>

definition texMod_time_varying :: "texModInfo_t \<Rightarrow> bool" where
  "texMod_time_varying tm =
     (tmod_type tm \<in> {TMOD_TURBULENT, TMOD_ENTITY_TRANSLATE, TMOD_SCROLL, TMOD_ROTATE}
      \<or> (tmod_type tm = TMOD_STRETCH \<and> wave_func tm \<noteq> GF_NONE)
      \<or> (tmod_type tm \<in> {TMOD_SCROLL2, TMOD_SCALE2, TMOD_CENTERSCALE, TMOD_SHEAR}
           \<and> (sExp_numOps tm \<noteq> 0 \<or> tExp_numOps tm \<noteq> 0))
      \<or> (tmod_type tm = TMOD_ROTATE2 \<and> rExp_numOps tm \<noteq> 0))"

definition stage_has_time_varying_texMod :: "shaderStage_t \<Rightarrow> bool" where
  "stage_has_time_varying_texMod st =
     (\<exists>b \<in> set (stage_bundle st). \<exists>i \<in> set [0 ..< numTexMods b]. texMod_time_varying (texMods b i))"

subsection \<open>Shaders, draw surfaces and the state of the material system\<close>

text \<open>
  \<^verbatim>\<open>shader_t\<close>: \<^verbatim>\<open>stages\<close> is the range from \<^verbatim>\<open>shader->stages\<close> up to
  \<^verbatim>\<open>shader->lastStage\<close>. A pointer to a shader is its address in the store
  \<open>shaders\<close> below; \<^verbatim>\<open>sort\<close> is compared with enumerators of \<^verbatim>\<open>shaderSort_t\<close>.
\<close>

record shader_t =
  sh_sort :: real
  sh_cullType :: nat
  polygonOffset :: bool
  isSky :: bool
  isPortal :: bool
  autoSpriteMode :: bool
  remappedShader :: "nat option"
  stages :: "shaderStage_t list"

text \<open>
  \<^verbatim>\<open>drawSurf_t\<close>. \<open>entityIsWorld\<close> stands for \<^verbatim>\<open>drawSurf->entity == &tr.worldEntity\<close>
  and \<open>surfaceIsSkip\<close> for \<^verbatim>\<open>*drawSurf->surface == surfaceType_t::SF_SKIP\<close>.
  \<open>surf_vbo\<close> and \<open>surf_ibo\<close> are the buffers that \<^verbatim>\<open>rb_surfaceTable\<close> binds for the
  surface, which \<^verbatim>\<open>ProcessStage\<close> reads back as \<^verbatim>\<open>glState.currentVBO\<close> and
  \<^verbatim>\<open>glState.currentIBO\<close>. The per-stage arrays are functions of the stage number.
\<close>

record drawSurf_t =
  entityIsWorld :: bool
  ds_shader :: "nat option"
  surfaceIsSkip :: bool
  materialSystemSkip :: bool
  ds_bspSurface :: bool
  surf_vbo :: nat
  surf_ibo :: nat
  materialIDs :: "nat \<Rightarrow> nat"
  materialPackIDs :: "nat \<Rightarrow> nat"
  materialsSSBOOffset :: "nat \<Rightarrow> nat"
  initialized :: "nat \<Rightarrow> bool"
  ds_texturesDynamic :: "nat \<Rightarrow> bool"

text \<open>
  One call of \<^verbatim>\<open>WriteUniformsToBuffer\<close>, as a log entry: the surface and stage it was
  made for, whether that stage was dynamic, the word offset in the materials buffer at
  which the instance starts, and the padded size of the material's shader.
\<close>

record ssbo_write =
  w_drawSurf :: drawSurf_t
  w_stage :: nat
  w_dynamic :: bool
  w_offset :: nat
  w_paddedSize :: nat

text \<open>
  The state that the build functions work on: the shader objects and
  \<^verbatim>\<open>tr.refdef.drawSurfs\<close> of the renderer, the members of \<^verbatim>\<open>MaterialSystem\<close>, the
  words of the buffer behind \<^verbatim>\<open>materialsSSBO\<close> with its size in words, and the log of
  the uniform writes into that buffer.
\<close>

record world =
  shaders :: "nat \<Rightarrow> shader_t"
  refdef_drawSurfs :: "nat \<Rightarrow> drawSurf_t"
  numDrawSurfs :: nat
  materialPacks :: "nat \<Rightarrow> Material list"
  totalDrawSurfs :: nat
  dynamicDrawSurfsOffset :: nat
  dynamicDrawSurfsSize :: nat
  dynamicDrawSurfs :: "drawSurf_t list"
  materialsData :: "nat \<Rightarrow> u32"
  materialsSize :: nat
  ssbo_writes :: "ssbo_write list"

text \<open>
  The enumerators of \<^verbatim>\<open>shaderSort_t\<close> and the \<^verbatim>\<open>GLS_\<close> state bit masks that
  \<^verbatim>\<open>ProcessStage\<close> uses are defined in tr_local.h and are parameters.
\<close>

record tr_consts =
  SS_DEPTH :: real
  SS_ENVIRONMENT_FOG :: real
  SS_OPAQUE :: real
  GLS_DEPTHFUNC_BITS :: u32
  GLS_SRCBLEND_BITS :: u32
  GLS_DSTBLEND_BITS :: u32
  GLS_POLYMODE_LINE :: u32
  GLS_DEPTHTEST_DISABLE :: u32
  GLS_COLORMASK_BITS :: u32
  GLS_DEPTHMASK_TRUE :: u32

subsection \<open>GenerateWorldMaterialsBuffer: the layout passes (lines 648 to 689)\<close>

text \<open>
  \<^verbatim>\<open>material.shader->GetPaddedSize()\<close>, with \<^verbatim>\<open>GetPaddedSize\<close> of the \<^verbatim>\<open>GLShader\<close>
  objects as the parameter \<open>G\<close>. There is no value when the material has no shader
  (a null pointer is dereferenced).
\<close>

definition paddedSize_of :: "(GLShader \<Rightarrow> nat) \<Rightarrow> Material \<Rightarrow> nat option" where
  "paddedSize_of G material = map_option G (shader material)"

text \<open>
  The padding computed at the top of both loop bodies. The code takes
  \<^verbatim>\<open>offset % paddedSize\<close> first, which has no value for a padded size of 0.
\<close>

definition padding_of :: "nat \<Rightarrow> nat \<Rightarrow> nat" where
  "padding_of offset paddedSize =
     (if offset mod paddedSize = 0 then 0 else paddedSize - offset mod paddedSize)"

text \<open>The first pair of loops, over the materials of one pack: the static regions.\<close>

fun layout_static ::
  "(GLShader \<Rightarrow> nat) \<Rightarrow> Material list \<Rightarrow> nat \<Rightarrow> (Material list \<times> nat) option" where
  "layout_static G [] offset = Some ([], offset)"
| "layout_static G (material # ms) offset =
     (case paddedSize_of G material of
        None \<Rightarrow> None
      | Some paddedSize \<Rightarrow>
          if paddedSize = 0 then None
          else
            (let padding = padding_of offset paddedSize;
                 offset1 = offset + padding;
                 material' = material\<lparr>staticMaterialsSSBOOffset := offset1\<rparr>;
                 offset2 = offset1 + paddedSize * totalStaticDrawSurfCount material'
             in case layout_static G ms offset2 of
                  None \<Rightarrow> None
                | Some (ms', offset') \<Rightarrow> Some (material' # ms', offset')))"

text \<open>
  The second pair of loops: the dynamic regions. The loop state is \<^verbatim>\<open>offset\<close>,
  \<^verbatim>\<open>dynamicDrawSurfsOffset\<close> and \<^verbatim>\<open>dynamicDrawSurfOffsetSet\<close>.
\<close>

fun layout_dynamic ::
  "(GLShader \<Rightarrow> nat) \<Rightarrow> Material list \<Rightarrow> nat \<times> nat \<times> bool
     \<Rightarrow> (Material list \<times> (nat \<times> nat \<times> bool)) option" where
  "layout_dynamic G [] st = Some ([], st)"
| "layout_dynamic G (material # ms) (offset, dynOffset, dynOffsetSet) =
     (case paddedSize_of G material of
        None \<Rightarrow> None
      | Some paddedSize \<Rightarrow>
          if paddedSize = 0 then None
          else
            (let padding = padding_of offset paddedSize;
                 offset1 = offset + padding;
                 dynOffset1 = (if \<not> dynOffsetSet then offset1 else dynOffset);
                 material' = material\<lparr>dynamicMaterialsSSBOOffset := offset1\<rparr>;
                 offset2 = offset1 + paddedSize * totalDynamicDrawSurfCount material'
             in case layout_dynamic G ms (offset2, dynOffset1, True) of
                  None \<Rightarrow> None
                | Some (ms', st') \<Rightarrow> Some (material' # ms', st')))"

text \<open>
  Subtraction of \<^verbatim>\<open>uint32_t\<close> values: it wraps around where the subtraction of
  natural numbers would stop at 0.
\<close>

definition u32_minus :: "nat \<Rightarrow> nat \<Rightarrow> nat" where
  "u32_minus a b = (if b \<le> a then a - b else a + 2 ^ 32 - b)"

text \<open>
  Both passes over the three packs, the assignment of \<^verbatim>\<open>dynamicDrawSurfsSize\<close>, and
  the new zero-filled buffer of \<^verbatim>\<open>offset\<close> words that \<^verbatim>\<open>glBufferData\<close>,
  \<^verbatim>\<open>MapBufferRange\<close> and \<^verbatim>\<open>memset\<close> set up. The log of writes starts again
  with the new buffer.
\<close>

definition GenerateWorldMaterialsBuffer_layout ::
  "(GLShader \<Rightarrow> nat) \<Rightarrow> world \<Rightarrow> world option" where
  "GenerateWorldMaterialsBuffer_layout G w =
     (case layout_static G (materialPacks w 0) 0 of None \<Rightarrow> None | Some (s0, o0) \<Rightarrow>
      case layout_static G (materialPacks w 1) o0 of None \<Rightarrow> None | Some (s1, o1) \<Rightarrow>
      case layout_static G (materialPacks w 2) o1 of None \<Rightarrow> None | Some (s2, o2) \<Rightarrow>
      case layout_dynamic G s0 (o2, dynamicDrawSurfsOffset w, False) of None \<Rightarrow> None
      | Some (d0, st0) \<Rightarrow>
      case layout_dynamic G s1 st0 of None \<Rightarrow> None | Some (d1, st1) \<Rightarrow>
      case layout_dynamic G s2 st1 of None \<Rightarrow> None | Some (d2, (offset, dynOffset, _)) \<Rightarrow>
        Some (w\<lparr>materialPacks := (materialPacks w)(0 := d0, 1 := d1, 2 := d2),
                dynamicDrawSurfsOffset := dynOffset,
                dynamicDrawSurfsSize := u32_minus offset dynOffset,
                materialsData := (\<lambda>_. 0),
                materialsSize := offset,
                ssbo_writes := []\<rparr>))"

subsection \<open>The surface data updaters (lines 196 to 610)\<close>

text \<open>
  \<^verbatim>\<open>WriteUniformsToBuffer\<close> belongs to \<^verbatim>\<open>GLShader\<close>, outside the sources: it stores
  the uniform values of the stage at the pointer it is given. Its parameter here,
  \<open>U\<close>, gives the words it stores for an updater, a surface and a stage.
\<close>

type_synonym uniforms = "surfaceDataUpdater_t \<Rightarrow> drawSurf_t \<Rightarrow> nat \<Rightarrow> u32 list"

definition write_words :: "(nat \<Rightarrow> u32) \<Rightarrow> nat \<Rightarrow> u32 list \<Rightarrow> (nat \<Rightarrow> u32)" where
  "write_words buf pos ws = (\<lambda>a. if pos \<le> a \<and> a < pos + length ws then ws ! (a - pos) else buf a)"

text \<open>
  The eight updaters that write (\<^verbatim>\<open>UpdateSurfaceDataGeneric3D\<close> to
  \<^verbatim>\<open>UpdateSurfaceDataFog\<close>) share this frame: \<^verbatim>\<open>materials\<close> is advanced by
  \<^verbatim>\<open>materialsSSBOOffset[stage] * GetPaddedSize()\<close>, nothing happens unless the stage is
  uninitialised or dynamic, and otherwise the stage is marked initialised and the
  uniforms are written. \<open>base\<close> is the word of the buffer that \<^verbatim>\<open>materials\<close> points
  to on entry. \<^verbatim>\<open>UpdateSurfaceDataNONE\<close> is \<^verbatim>\<open>ASSERT_UNREACHABLE\<close> and
  \<^verbatim>\<open>UpdateSurfaceDataNOP\<close> is empty.
\<close>

definition UpdateSurfaceData ::
  "(GLShader \<Rightarrow> nat) \<Rightarrow> uniforms \<Rightarrow> (nat \<Rightarrow> shader_t) \<Rightarrow> surfaceDataUpdater_t \<Rightarrow> nat
     \<Rightarrow> (nat \<Rightarrow> u32) \<Rightarrow> Material \<Rightarrow> drawSurf_t \<Rightarrow> nat
     \<Rightarrow> ((nat \<Rightarrow> u32) \<times> drawSurf_t \<times> ssbo_write list) option" where
  "UpdateSurfaceData G U shs updater base materials material drawSurf stage =
     (case updater of
        UpdateSurfaceDataNONE \<Rightarrow> None
      | UpdateSurfaceDataNOP \<Rightarrow> Some (materials, drawSurf, [])
      | _ \<Rightarrow>
         (case ds_shader drawSurf of
            None \<Rightarrow> None
          | Some psh \<Rightarrow>
             (case paddedSize_of G material of
                None \<Rightarrow> None
              | Some paddedSize \<Rightarrow>
                 (let pStage = stages (shs psh) ! stage;
                      paddedOffset = materialsSSBOOffset drawSurf stage * paddedSize;
                      updated = (\<not> initialized drawSurf stage \<or> colorDynamic pStage
                                  \<or> texMatricesDynamic pStage \<or> dynamic pStage)
                  in if \<not> updated then Some (materials, drawSurf, [])
                     else
                       Some (write_words materials (base + paddedOffset) (U updater drawSurf stage),
                             drawSurf\<lparr>initialized := (initialized drawSurf)(stage := True)\<rparr>,
                             [\<lparr>w_drawSurf = drawSurf, w_stage = stage, w_dynamic = dynamic pStage,
                               w_offset = base + paddedOffset, w_paddedSize = paddedSize\<rparr>])))))"

subsection \<open>GenerateWorldMaterialsBuffer: filling the buffer (lines 696 to 761)\<close>

text \<open>
  The body of the loop over the stages of one surface of one material. The loop state is
  the world, the material (the loop holds a reference to it) and
  \<^verbatim>\<open>hasDynamicStages\<close>; \<open>d\<close> is the surface pointer and \<open>stage\<close> the stage counter,
  with \<^verbatim>\<open>pStage\<close> the stage of that number in the surface's shader.
  \<^verbatim>\<open>AddStageTextures\<close> and the calls into \<^verbatim>\<open>Tess\<close> and the colour renderer collect
  textures and draw commands; they do not touch the members modelled here.
\<close>

definition buffer_stage ::
  "(GLShader \<Rightarrow> nat) \<Rightarrow> uniforms \<Rightarrow> nat \<Rightarrow> nat \<Rightarrow> nat \<Rightarrow> world \<times> Material \<times> bool
     \<Rightarrow> (world \<times> Material \<times> bool) option" where
  "buffer_stage G U materialPackID d stage st =
     (case st of (w, material, hasDynamicStages) \<Rightarrow>
      let drawSurf = refdef_drawSurfs w d in
      case ds_shader drawSurf of
        None \<Rightarrow> None
      | Some psh \<Rightarrow>
         (let pStage = stages (shaders w psh) ! stage in
          if materialIDs drawSurf stage \<noteq> mat_id material
             \<or> materialPackIDs drawSurf stage \<noteq> materialPackID
          then Some (w, material, hasDynamicStages)
          else
           (case paddedSize_of G material of
              None \<Rightarrow> None
            | Some paddedSize \<Rightarrow>
               if paddedSize = 0 then None
               else
                (let (SSBOOffset, drawSurfCount, material1) =
                       (if dynamic pStage
                        then (dynamicMaterialsSSBOOffset material,
                              currentDynamicDrawSurfCount material,
                              material\<lparr>currentDynamicDrawSurfCount :=
                                         currentDynamicDrawSurfCount material + 1\<rparr>)
                        else (staticMaterialsSSBOOffset material,
                              currentStaticDrawSurfCount material,
                              material\<lparr>currentStaticDrawSurfCount :=
                                         currentStaticDrawSurfCount material + 1\<rparr>));
                     drawSurf1 = drawSurf\<lparr>materialsSSBOOffset := (materialsSSBOOffset drawSurf)
                        (stage := (SSBOOffset + drawSurfCount * paddedSize) div paddedSize)\<rparr>;
                     hasDynamicStages1 = (hasDynamicStages \<or> dynamic pStage)
                 in case UpdateSurfaceData G U (shaders w) (surfaceDataUpdater pStage) 0
                           (materialsData w) material1 drawSurf1 stage of
                      None \<Rightarrow> None
                    | Some (data', drawSurf2, wlog) \<Rightarrow>
                       (let drawSurf3 =
                              (if dynamic pStage
                               then drawSurf2\<lparr>materialsSSBOOffset := (materialsSSBOOffset drawSurf2)
                                  (stage := (u32_minus SSBOOffset (dynamicDrawSurfsOffset w)
                                               + drawSurfCount * paddedSize) div paddedSize)\<rparr>
                               else drawSurf2)
                        in Some (w\<lparr>materialsData := data',
                                   refdef_drawSurfs := (refdef_drawSurfs w)(d := drawSurf3),
                                   ssbo_writes := ssbo_writes w @ wlog\<rparr>,
                                 material1, hasDynamicStages1))))))"

fun buffer_stages ::
  "(GLShader \<Rightarrow> nat) \<Rightarrow> uniforms \<Rightarrow> nat \<Rightarrow> nat \<Rightarrow> nat list \<Rightarrow> world \<times> Material \<times> bool
     \<Rightarrow> (world \<times> Material \<times> bool) option" where
  "buffer_stages G U materialPackID d [] st = Some st"
| "buffer_stages G U materialPackID d (stage # ks) st =
     (case buffer_stage G U materialPackID d stage st of
        None \<Rightarrow> None
      | Some st' \<Rightarrow> buffer_stages G U materialPackID d ks st')"

text \<open>
  The body of the loop over \<^verbatim>\<open>material.drawSurfs\<close>: all stages of the surface's shader,
  then the copy of the surface into \<^verbatim>\<open>dynamicDrawSurfs\<close>.
\<close>

definition buffer_drawSurf ::
  "(GLShader \<Rightarrow> nat) \<Rightarrow> uniforms \<Rightarrow> nat \<Rightarrow> nat \<Rightarrow> world \<times> Material
     \<Rightarrow> (world \<times> Material) option" where
  "buffer_drawSurf G U materialPackID d st =
     (case st of (w, material) \<Rightarrow>
      case ds_shader (refdef_drawSurfs w d) of
        None \<Rightarrow> None
      | Some psh \<Rightarrow>
         (case buffer_stages G U materialPackID d [0 ..< length (stages (shaders w psh))]
                 (w, material, False) of
            None \<Rightarrow> None
          | Some (w1, material1, hasDynamicStages) \<Rightarrow>
              Some (if hasDynamicStages
                    then w1\<lparr>dynamicDrawSurfs := dynamicDrawSurfs w1 @ [refdef_drawSurfs w1 d]\<rparr>
                    else w1,
                    material1)))"

fun buffer_drawSurfs ::
  "(GLShader \<Rightarrow> nat) \<Rightarrow> uniforms \<Rightarrow> nat \<Rightarrow> nat list \<Rightarrow> world \<times> Material
     \<Rightarrow> (world \<times> Material) option" where
  "buffer_drawSurfs G U materialPackID [] st = Some st"
| "buffer_drawSurfs G U materialPackID (d # ds) st =
     (case buffer_drawSurf G U materialPackID d st of
        None \<Rightarrow> None
      | Some st' \<Rightarrow> buffer_drawSurfs G U materialPackID ds st')"

text \<open>The loop over the materials of one pack; each material is updated in place.\<close>

fun buffer_materials ::
  "(GLShader \<Rightarrow> nat) \<Rightarrow> uniforms \<Rightarrow> nat \<Rightarrow> Material list \<Rightarrow> world
     \<Rightarrow> (Material list \<times> world) option" where
  "buffer_materials G U materialPackID [] w = Some ([], w)"
| "buffer_materials G U materialPackID (material # ms) w =
     (case buffer_drawSurfs G U materialPackID (drawSurfs material) (w, material) of
        None \<Rightarrow> None
      | Some (w1, material1) \<Rightarrow>
         (case buffer_materials G U materialPackID ms w1 of
            None \<Rightarrow> None
          | Some (ms', w2) \<Rightarrow> Some (material1 # ms', w2)))"

definition buffer_pack ::
  "(GLShader \<Rightarrow> nat) \<Rightarrow> uniforms \<Rightarrow> nat \<Rightarrow> world \<Rightarrow> world option" where
  "buffer_pack G U materialPackID w =
     (case buffer_materials G U materialPackID (materialPacks w materialPackID) w of
        None \<Rightarrow> None
      | Some (ms', w1) \<Rightarrow>
          Some (w1\<lparr>materialPacks := (materialPacks w1)(materialPackID := ms')\<rparr>))"

definition GenerateWorldMaterialsBuffer ::
  "(GLShader \<Rightarrow> nat) \<Rightarrow> uniforms \<Rightarrow> world \<Rightarrow> world option" where
  "GenerateWorldMaterialsBuffer G U w =
     (case GenerateWorldMaterialsBuffer_layout G w of None \<Rightarrow> None | Some w0 \<Rightarrow>
      case buffer_pack G U 0 w0 of None \<Rightarrow> None | Some w1 \<Rightarrow>
      case buffer_pack G U 1 w1 of None \<Rightarrow> None | Some w2 \<Rightarrow>
        buffer_pack G U 2 w2)"

subsection \<open>ProcessStage (lines 1398 to 1486)\<close>

text \<open>
  Modelled from the spec: \<^verbatim>\<open>Material::operator==\<close>, which \<^verbatim>\<open>std::find\<close> applies, is
  defined in Material.h, which is not among the sources. The specification gives the
  identity of a material: "two stage instances with identical state bits, binder, cull
  type, buffers, and sync target collapse to the same Material". The sync target is the
  pair of \<^verbatim>\<open>useSync\<close> and \<^verbatim>\<open>syncMaterial\<close>.
\<close>

definition Material_eq :: "Material \<Rightarrow> Material \<Rightarrow> bool" where
  "Material_eq a b =
     (stateBits a = stateBits b \<and> shaderBinder a = shaderBinder b \<and> cullType a = cullType b
      \<and> vbo a = vbo b \<and> ibo a = ibo b
      \<and> useSync a = useSync b \<and> syncMaterial a = syncMaterial b)"

text \<open>The pack that \<^verbatim>\<open>ProcessStage\<close> derives from \<^verbatim>\<open>shader->sort\<close>.\<close>

definition materialPack_of :: "tr_consts \<Rightarrow> real \<Rightarrow> nat" where
  "materialPack_of C srt =
     (if srt = SS_DEPTH C then 0
      else if srt \<ge> SS_ENVIRONMENT_FOG C \<and> srt \<le> SS_OPAQUE C then 1
      else 2)"

definition stateBits_mask :: "tr_consts \<Rightarrow> u32" where
  "stateBits_mask C =
     (GLS_DEPTHFUNC_BITS C OR GLS_SRCBLEND_BITS C OR GLS_DSTBLEND_BITS C OR GLS_POLYMODE_LINE C
      OR GLS_DEPTHTEST_DISABLE C OR GLS_COLORMASK_BITS C OR GLS_DEPTHMASK_TRUE C)"

text \<open>
  \<^verbatim>\<open>pStage->materialProcessor( &material, pStage, drawSurf )\<close>: every processor but
  \<^verbatim>\<open>ProcessMaterialNONE\<close> (\<^verbatim>\<open>ASSERT_UNREACHABLE\<close>) and \<^verbatim>\<open>ProcessMaterialNOP\<close> stores
  its shader object in the material.
\<close>

fun apply_materialProcessor :: "materialProcessor_t \<Rightarrow> Material \<Rightarrow> Material option" where
  "apply_materialProcessor ProcessMaterialNONE material = None"
| "apply_materialProcessor ProcessMaterialNOP material = Some material"
| "apply_materialProcessor ProcessMaterialGeneric3D material =
     Some (material\<lparr>shader := Some gl_genericShaderMaterial\<rparr>)"
| "apply_materialProcessor ProcessMaterialLightMapping material =
     Some (material\<lparr>shader := Some gl_lightMappingShaderMaterial\<rparr>)"
| "apply_materialProcessor ProcessMaterialReflection material =
     Some (material\<lparr>shader := Some gl_reflectionShaderMaterial\<rparr>)"
| "apply_materialProcessor ProcessMaterialSkybox material =
     Some (material\<lparr>shader := Some gl_skyboxShaderMaterial\<rparr>)"
| "apply_materialProcessor ProcessMaterialScreen material =
     Some (material\<lparr>shader := Some gl_screenShaderMaterial\<rparr>)"
| "apply_materialProcessor ProcessMaterialHeatHaze material =
     Some (material\<lparr>shader := Some gl_heatHazeShaderMaterial\<rparr>)"
| "apply_materialProcessor ProcessMaterialLiquid material =
     Some (material\<lparr>shader := Some gl_liquidShaderMaterial\<rparr>)"
| "apply_materialProcessor ProcessMaterialFog material =
     Some (material\<lparr>shader := Some gl_fogQuake3ShaderMaterial\<rparr>)"

text \<open>
  The search loop: \<^verbatim>\<open>std::find\<close> from \<^verbatim>\<open>currentSearchIt\<close> for a material equal to
  the candidate; a match whose id is below the candidate's sync target moves
  \<^verbatim>\<open>currentSearchIt\<close> behind it and the search goes on; any other match ends the loop.
  The result is the material that \<^verbatim>\<open>materialIt\<close> points to, \<open>None\<close> for
  \<^verbatim>\<open>materials.end()\<close>.
\<close>

fun find_material :: "Material \<Rightarrow> Material list \<Rightarrow> Material option" where
  "find_material material [] = None"
| "find_material material (m # ms) =
     (if Material_eq m material
      then (if useSync material \<and> mat_id m < syncMaterial material
            then find_material material ms
            else Some m)
      else find_material material ms)"

text \<open>
  The candidate material that \<^verbatim>\<open>ProcessStage\<close> builds before the search, from the stage
  (after \<^verbatim>\<open>ComputeDynamics\<close>), the remapped shader and the surface.
\<close>

definition candidate_material ::
  "tr_consts \<Rightarrow> shaderStage_t \<Rightarrow> shader_t \<Rightarrow> drawSurf_t \<Rightarrow> nat \<Rightarrow> nat \<Rightarrow> Material option" where
  "candidate_material C pStage shdr drawSurf stage previousMaterialID =
     (let material1 = Material_default\<lparr>mat_sort := materialPack_of C (sh_sort shdr)\<rparr>;
          material2 = (if stage > 0
                       then material1\<lparr>useSync := True, syncMaterial := previousMaterialID\<rparr>
                       else material1);
          material3 = material2\<lparr>stateBits := stage_stateBits pStage AND stateBits_mask C,
                                shaderBinder := stage_shaderBinder pStage,
                                cullType := sh_cullType shdr,
                                usePolygonOffset := polygonOffset shdr,
                                vbo := surf_vbo drawSurf, ibo := surf_ibo drawSurf\<rparr>;
          material4 = material3\<lparr>bspSurface := ds_bspSurface drawSurf\<rparr>
      in apply_materialProcessor (materialProcessor pStage) material4)"

text \<open>
  \<^verbatim>\<open>ProcessStage\<close>. \<open>d\<close> is the surface pointer, \<open>(psh, pk)\<close> the stage pointer
  \<^verbatim>\<open>pStage\<close> (stage \<open>pk\<close> of the shader at \<open>psh\<close>; the caller takes it from the
  stages of the surface's shader), \<open>sh\<close> the pointer to the remapped shader. The state
  is the world, \<^verbatim>\<open>packIDs\<close>, \<^verbatim>\<open>stage\<close> and \<^verbatim>\<open>previousMaterialID\<close>. Indexing the
  pack with an id that is not below its size has no result.
\<close>

definition ProcessStage ::
  "tr_consts \<Rightarrow> nat \<Rightarrow> nat \<times> nat \<Rightarrow> nat \<Rightarrow> world \<times> (nat \<Rightarrow> nat) \<times> nat \<times> nat
     \<Rightarrow> (world \<times> (nat \<Rightarrow> nat) \<times> nat \<times> nat) option" where
  "ProcessStage C d pStagePtr sh st =
     (case st of (w, packIDs, stage, previousMaterialID) \<Rightarrow>
      case pStagePtr of (psh, pk) \<Rightarrow>
      let drawSurf = refdef_drawSurfs w d;
          shdr = shaders w sh;
          materialPack = materialPack_of C (sh_sort shdr);
          id0 = packIDs materialPack;
          pStage1 = ComputeDynamics (stages (shaders w psh) ! pk);
          drawSurf1 = (if texturesDynamic pStage1
                       then drawSurf\<lparr>ds_texturesDynamic := (ds_texturesDynamic drawSurf)(stage := True)\<rparr>
                       else drawSurf)
      in case candidate_material C pStage1 shdr drawSurf1 stage previousMaterialID of
           None \<Rightarrow> None
         | Some material \<Rightarrow>
            (let materials = materialPacks w materialPack;
                 (materials1, prev, id1) =
                    (case find_material material materials of
                       None \<Rightarrow> (materials @ [material\<lparr>mat_id := id0\<rparr>], id0, id0 + 1)
                     | Some m \<Rightarrow> (materials, mat_id m, id0));
                 pStage2 = pStage1\<lparr>useMaterialSystem := True\<rparr>
             in if prev \<ge> length materials1 then None
                else
                 (let m0 = materials1 ! prev;
                      m1 = m0\<lparr>totalDrawSurfCount := totalDrawSurfCount m0 + 1\<rparr>;
                      m2 = (if dynamic pStage2
                            then m1\<lparr>totalDynamicDrawSurfCount := totalDynamicDrawSurfCount m1 + 1\<rparr>
                            else m1\<lparr>totalStaticDrawSurfCount := totalStaticDrawSurfCount m1 + 1\<rparr>);
                      m3 = (if d \<in> set (drawSurfs m2) then m2
                            else m2\<lparr>drawSurfs := drawSurfs m2 @ [d]\<rparr>);
                      drawSurf2 = drawSurf1\<lparr>materialIDs := (materialIDs drawSurf1)(stage := prev),
                                            materialPackIDs := (materialPackIDs drawSurf1)
                                               (stage := materialPack)\<rparr>
                  in Some (w\<lparr>shaders := (shaders w)
                               (psh := (shaders w psh)\<lparr>stages := (stages (shaders w psh))[pk := pStage2]\<rparr>),
                             refdef_drawSurfs := (refdef_drawSurfs w)(d := drawSurf2),
                             materialPacks := (materialPacks w)(materialPack := materials1[prev := m3])\<rparr>,
                           packIDs(materialPack := id1), stage + 1, prev))))"

subsection \<open>GenerateWorldMaterials: the classification loop (lines 1513 to 1553)\<close>

text \<open>The loop over the stages of one surface.\<close>

fun ProcessStages ::
  "tr_consts \<Rightarrow> nat \<Rightarrow> nat \<Rightarrow> nat \<Rightarrow> nat list \<Rightarrow> world \<times> (nat \<Rightarrow> nat) \<times> nat \<times> nat
     \<Rightarrow> (world \<times> (nat \<Rightarrow> nat) \<times> nat \<times> nat) option" where
  "ProcessStages C d psh sh [] st = Some st"
| "ProcessStages C d psh sh (pk # pks) st =
     (case ProcessStage C d (psh, pk) sh st of
        None \<Rightarrow> None
      | Some st' \<Rightarrow> ProcessStages C d psh sh pks st')"

text \<open>
  The body of the loop over \<^verbatim>\<open>tr.refdef.drawSurfs\<close>. The calls of \<^verbatim>\<open>Tess_Begin\<close>,
  \<^verbatim>\<open>rb_surfaceTable\<close> and \<^verbatim>\<open>Tess_Clear\<close> bind the buffers of the surface
  (\<open>surf_vbo\<close>, \<open>surf_ibo\<close>).
\<close>

definition classify_drawSurf ::
  "tr_consts \<Rightarrow> nat \<Rightarrow> world \<times> (nat \<Rightarrow> nat) \<Rightarrow> (world \<times> (nat \<Rightarrow> nat)) option" where
  "classify_drawSurf C i st =
     (case st of (w, packIDs) \<Rightarrow>
      let drawSurf = refdef_drawSurfs w i in
      if \<not> entityIsWorld drawSurf then Some (w, packIDs)
      else
       (case ds_shader drawSurf of
          None \<Rightarrow> Some (w, packIDs)
        | Some psh \<Rightarrow>
           (let sh = (case remappedShader (shaders w psh) of Some r \<Rightarrow> r | None \<Rightarrow> psh);
                shdr = shaders w sh
            in if isSky shdr \<or> isPortal shdr \<or> autoSpriteMode shdr then Some (w, packIDs)
               else if surfaceIsSkip drawSurf then Some (w, packIDs)
               else
                (let w1 = (if \<not> materialSystemSkip drawSurf
                           then w\<lparr>totalDrawSurfs := totalDrawSurfs w + 1\<rparr> else w)
                 in case ProcessStages C i psh sh [0 ..< length (stages (shaders w1 psh))]
                           (w1, packIDs, 0, 0) of
                      None \<Rightarrow> None
                    | Some (w2, packIDs2, _, _) \<Rightarrow> Some (w2, packIDs2)))))"

fun classify_drawSurfs ::
  "tr_consts \<Rightarrow> nat list \<Rightarrow> world \<times> (nat \<Rightarrow> nat) \<Rightarrow> (world \<times> (nat \<Rightarrow> nat)) option" where
  "classify_drawSurfs C [] st = Some st"
| "classify_drawSurfs C (i # is) st =
     (case classify_drawSurf C i st of
        None \<Rightarrow> None
      | Some st' \<Rightarrow> classify_drawSurfs C is st')"

text \<open>
  \<^verbatim>\<open>GenerateWorldMaterials\<close> up to the call of \<^verbatim>\<open>GenerateWorldMaterialsBuffer\<close>, on
  the world as \<^verbatim>\<open>R_AddWorldSurfaces\<close> leaves it: \<^verbatim>\<open>totalDrawSurfs\<close> and
  \<^verbatim>\<open>packIDs\<close> start at zero.
\<close>

definition GenerateWorldMaterials_classify :: "tr_consts \<Rightarrow> world \<Rightarrow> world option" where
  "GenerateWorldMaterials_classify C w =
     (case classify_drawSurfs C [0 ..< numDrawSurfs w] (w\<lparr>totalDrawSurfs := 0\<rparr>, (\<lambda>_. 0)) of
        None \<Rightarrow> None
      | Some (w', _) \<Rightarrow> Some w')"

text \<open>
  \<^verbatim>\<open>GenerateWorldMaterials\<close> through the call of \<^verbatim>\<open>GenerateWorldMaterialsBuffer\<close>.
\<close>

definition GenerateWorldMaterials ::
  "tr_consts \<Rightarrow> (GLShader \<Rightarrow> nat) \<Rightarrow> uniforms \<Rightarrow> world \<Rightarrow> world option" where
  "GenerateWorldMaterials C G U w =
     (case GenerateWorldMaterials_classify C w of
        None \<Rightarrow> None
      | Some w1 \<Rightarrow> GenerateWorldMaterialsBuffer G U w1)"

subsection \<open>UpdateDynamicSurfaces (lines 1623 to 1643)\<close>

text \<open>
  \<^verbatim>\<open>materialsSSBO.MapBufferRange( dynamicDrawSurfsOffset, dynamicDrawSurfsSize )\<close>
  gives a pointer to word \<^verbatim>\<open>dynamicDrawSurfsOffset\<close> of the buffer, and the
  \<^verbatim>\<open>memset\<close> clears \<^verbatim>\<open>dynamicDrawSurfsSize\<close> words from there.
\<close>

definition memset_zero :: "(nat \<Rightarrow> u32) \<Rightarrow> nat \<Rightarrow> nat \<Rightarrow> (nat \<Rightarrow> u32)" where
  "memset_zero buf pos n = (\<lambda>a. if pos \<le> a \<and> a < pos + n then 0 else buf a)"

text \<open>
  The body of the loop over the stages of one copied surface: the material is looked up
  by the pack id and material id stored for the stage (an index outside the three packs
  or outside the pack has no result), and the stage's updater is called on the mapped
  range.
\<close>

definition update_stage ::
  "(GLShader \<Rightarrow> nat) \<Rightarrow> uniforms \<Rightarrow> world \<Rightarrow> nat
     \<Rightarrow> (nat \<Rightarrow> u32) \<times> drawSurf_t \<times> ssbo_write list
     \<Rightarrow> ((nat \<Rightarrow> u32) \<times> drawSurf_t \<times> ssbo_write list) option" where
  "update_stage G U w stage st =
     (case st of (materialsData0, drawSurf, wlog) \<Rightarrow>
      case ds_shader drawSurf of
        None \<Rightarrow> None
      | Some psh \<Rightarrow>
         (let pStage = stages (shaders w psh) ! stage;
              p = materialPackIDs drawSurf stage;
              j = materialIDs drawSurf stage
          in if p \<ge> 3 \<or> j \<ge> length (materialPacks w p) then None
             else
              (case UpdateSurfaceData G U (shaders w) (surfaceDataUpdater pStage)
                      (dynamicDrawSurfsOffset w) materialsData0 (materialPacks w p ! j)
                      drawSurf stage of
                 None \<Rightarrow> None
               | Some (data', drawSurf', wlog') \<Rightarrow> Some (data', drawSurf', wlog @ wlog'))))"

fun update_stages ::
  "(GLShader \<Rightarrow> nat) \<Rightarrow> uniforms \<Rightarrow> world \<Rightarrow> nat list
     \<Rightarrow> (nat \<Rightarrow> u32) \<times> drawSurf_t \<times> ssbo_write list
     \<Rightarrow> ((nat \<Rightarrow> u32) \<times> drawSurf_t \<times> ssbo_write list) option" where
  "update_stages G U w [] st = Some st"
| "update_stages G U w (stage # ks) st =
     (case update_stage G U w stage st of
        None \<Rightarrow> None
      | Some st' \<Rightarrow> update_stages G U w ks st')"

text \<open>The loop over \<^verbatim>\<open>dynamicDrawSurfs\<close>; each copy is updated in place.\<close>

fun update_drawSurfs ::
  "(GLShader \<Rightarrow> nat) \<Rightarrow> uniforms \<Rightarrow> world \<Rightarrow> drawSurf_t list
     \<Rightarrow> (nat \<Rightarrow> u32) \<times> ssbo_write list
     \<Rightarrow> (drawSurf_t list \<times> (nat \<Rightarrow> u32) \<times> ssbo_write list) option" where
  "update_drawSurfs G U w [] st = Some ([], st)"
| "update_drawSurfs G U w (drawSurf # dss) st =
     (case st of (materialsData0, wlog) \<Rightarrow>
      case ds_shader drawSurf of
        None \<Rightarrow> None
      | Some psh \<Rightarrow>
         (case update_stages G U w [0 ..< length (stages (shaders w psh))]
                 (materialsData0, drawSurf, wlog) of
            None \<Rightarrow> None
          | Some (data1, drawSurf1, wlog1) \<Rightarrow>
             (case update_drawSurfs G U w dss (data1, wlog1) of
                None \<Rightarrow> None
              | Some (dss', st') \<Rightarrow> Some (drawSurf1 # dss', st'))))"

definition UpdateDynamicSurfaces ::
  "(GLShader \<Rightarrow> nat) \<Rightarrow> uniforms \<Rightarrow> world \<Rightarrow> world option" where
  "UpdateDynamicSurfaces G U w =
     (if dynamicDrawSurfsSize w = 0 then Some w
      else
       (let materialsData0 =
              memset_zero (materialsData w) (dynamicDrawSurfsOffset w) (dynamicDrawSurfsSize w)
        in case update_drawSurfs G U w (dynamicDrawSurfs w) (materialsData0, ssbo_writes w) of
             None \<Rightarrow> None
           | Some (dss', data', wlog') \<Rightarrow>
               Some (w\<lparr>dynamicDrawSurfs := dss', materialsData := data',
                       ssbo_writes := wlog'\<rparr>)))"

subsection \<open>Concrete worlds\<close>

text \<open>
  Values for the parameters and a small scene, used where a statement is evaluated on a
  concrete input: the sort enumerators in their order, state bit masks, padded sizes of 4
  words for the generic shader and 3 words for the light-mapping shader, and uniform
  writes that fill a whole instance with the word 1.
\<close>

definition example_consts :: tr_consts where
  "example_consts =
     \<lparr>SS_DEPTH = 2, SS_ENVIRONMENT_FOG = 3, SS_OPAQUE = 5,
      GLS_DEPTHFUNC_BITS = 0x300, GLS_SRCBLEND_BITS = 0xF, GLS_DSTBLEND_BITS = 0xF0,
      GLS_POLYMODE_LINE = 0x2000, GLS_DEPTHTEST_DISABLE = 0x1000,
      GLS_COLORMASK_BITS = 0xF00000, GLS_DEPTHMASK_TRUE = 0x400\<rparr>"

definition example_paddedSize :: "GLShader \<Rightarrow> nat" where
  "example_paddedSize s =
     (case s of gl_genericShaderMaterial \<Rightarrow> 4 | gl_lightMappingShaderMaterial \<Rightarrow> 3 | _ \<Rightarrow> 1)"

definition example_uniforms :: uniforms where
  "example_uniforms updater drawSurf stage =
     (case updater of
        UpdateSurfaceDataGeneric3D \<Rightarrow> replicate 4 1
      | UpdateSurfaceDataLightMapping \<Rightarrow> replicate 3 1
      | _ \<Rightarrow> [1])"

definition shader_plain :: shader_t where
  "shader_plain =
     \<lparr>sh_sort = 5, sh_cullType = 0, polygonOffset = False, isSky = False, isPortal = False,
      autoSpriteMode = False, remappedShader = None, stages = []\<rparr>"

definition drawSurf_plain :: drawSurf_t where
  "drawSurf_plain =
     \<lparr>entityIsWorld = True, ds_shader = Some 0, surfaceIsSkip = False,
      materialSystemSkip = False, ds_bspSurface = True, surf_vbo = 1, surf_ibo = 1,
      materialIDs = (\<lambda>_. 0), materialPackIDs = (\<lambda>_. 0), materialsSSBOOffset = (\<lambda>_. 0),
      initialized = (\<lambda>_. False), ds_texturesDynamic = (\<lambda>_. False)\<rparr>"

definition world_empty :: world where
  "world_empty =
     \<lparr>shaders = (\<lambda>_. shader_plain), refdef_drawSurfs = (\<lambda>_. drawSurf_plain),
      numDrawSurfs = 0, materialPacks = (\<lambda>_. []), totalDrawSurfs = 0,
      dynamicDrawSurfsOffset = 0, dynamicDrawSurfsSize = 0, dynamicDrawSurfs = [],
      materialsData = (\<lambda>_. 0), materialsSize = 0, ssbo_writes = []\<rparr>"

text \<open>
  One opaque world surface whose shader has two dynamic stages: a generic stage with a
  waveform colour generator and a light-mapping stage with a waveform alpha generator.
\<close>

definition two_dynamic_stages_world :: world where
  "two_dynamic_stages_world =
     world_empty\<lparr>numDrawSurfs := 1,
       shaders := (\<lambda>_. shader_plain\<lparr>stages :=
         [shaderStage_plain\<lparr>rgbGen := CGEN_WAVEFORM\<rparr>,
          shaderStage_plain\<lparr>alphaGen := AGEN_WAVEFORM,
            stage_shaderBinder := BindShaderLightMapping,
            materialProcessor := ProcessMaterialLightMapping,
            surfaceDataUpdater := UpdateSurfaceDataLightMapping\<rparr>]\<rparr>)\<rparr>"

text \<open>
  Two opaque world surfaces. The shader of the first has a dynamic light-mapping stage
  (waveform alpha generator) followed by a static generic stage; the shader of the second
  has one static generic stage.
\<close>

definition dynamic_then_static_world :: world where
  "dynamic_then_static_world =
     world_empty\<lparr>numDrawSurfs := 2,
       refdef_drawSurfs := (\<lambda>i. drawSurf_plain\<lparr>ds_shader := Some i\<rparr>),
       shaders := (\<lambda>i. if i = 0
         then shader_plain\<lparr>stages :=
           [shaderStage_plain\<lparr>alphaGen := AGEN_WAVEFORM,
              stage_shaderBinder := BindShaderLightMapping,
              materialProcessor := ProcessMaterialLightMapping,
              surfaceDataUpdater := UpdateSurfaceDataLightMapping\<rparr>,
            shaderStage_plain]\<rparr>
         else shader_plain\<lparr>stages := [shaderStage_plain]\<rparr>)\<rparr>"

subsection \<open>Notions used in the statements about the buffer layout\<close>

text \<open>The padded size of a material's shader, 0 when the material has no shader.\<close>

definition the_paddedSize :: "(GLShader \<Rightarrow> nat) \<Rightarrow> Material \<Rightarrow> nat" where
  "the_paddedSize G m = (case paddedSize_of G m of Some p \<Rightarrow> p | None \<Rightarrow> 0)"



text \<open>Two materials that differ at most in their running instance counters.\<close>

definition same_but_current :: "Material \<Rightarrow> Material \<Rightarrow> bool" where
  "same_but_current m m' =
     (\<exists>cs cd. m' = m\<lparr>currentStaticDrawSurfCount := cs, currentDynamicDrawSurfCount := cd\<rparr>)"

subsection \<open>Notions used in the statements about the instance slots\<close>

text \<open>
  Stage \<open>k\<close> of surface \<open>d\<close> is assigned to material \<open>j\<close> of pack \<open>p\<close>; it is
  dynamic; the stage numbers of the surface's shader.
\<close>

definition stage_matches :: "world \<Rightarrow> nat \<Rightarrow> nat \<Rightarrow> nat \<Rightarrow> nat \<Rightarrow> bool" where
  "stage_matches w p j d k =
     (materialIDs (refdef_drawSurfs w d) k = j \<and> materialPackIDs (refdef_drawSurfs w d) k = p)"

definition stage_of :: "world \<Rightarrow> nat \<Rightarrow> nat \<Rightarrow> shaderStage_t option" where
  "stage_of w d k =
     (case ds_shader (refdef_drawSurfs w d) of
        None \<Rightarrow> None
      | Some psh \<Rightarrow> Some (stages (shaders w psh) ! k))"

definition stage_dynamic :: "world \<Rightarrow> nat \<Rightarrow> nat \<Rightarrow> bool" where
  "stage_dynamic w d k = (case stage_of w d k of None \<Rightarrow> False | Some st \<Rightarrow> dynamic st)"

definition surf_stages :: "world \<Rightarrow> nat \<Rightarrow> nat list" where
  "surf_stages w d =
     (case ds_shader (refdef_drawSurfs w d) of
        None \<Rightarrow> []
      | Some psh \<Rightarrow> [0 ..< length (stages (shaders w psh))])"

text \<open>
  How many of the stages \<open>ks\<close> of surface \<open>d\<close> are assigned to material \<open>j\<close> of pack
  \<open>p\<close> and are dynamic (\<open>dyn = True\<close>) or static (\<open>dyn = False\<close>); and the same count
  over a list of surfaces, each with its own list of stages.
\<close>

definition visit_count :: "world \<Rightarrow> nat \<Rightarrow> nat \<Rightarrow> bool \<Rightarrow> nat \<Rightarrow> nat list \<Rightarrow> nat" where
  "visit_count w p j dyn d ks =
     length (filter (\<lambda>k. stage_matches w p j d k \<and> stage_dynamic w d k = dyn) ks)"

definition visits_count ::
  "world \<Rightarrow> (nat \<Rightarrow> nat list) \<Rightarrow> nat \<Rightarrow> nat \<Rightarrow> bool \<Rightarrow> nat list \<Rightarrow> nat" where
  "visits_count w stgs p j dyn ds = sum_list (map (\<lambda>d. visit_count w p j dyn d (stgs d)) ds)"

text \<open>
  What the loops that fill the buffer leave alone: the shaders, the packs as stored in the
  world, the layout, and the shader and the material assignment of every surface. The
  log of writes only grows.
\<close>

definition buffer_frame :: "world \<Rightarrow> world \<Rightarrow> bool" where
  "buffer_frame w w' =
     (shaders w' = shaders w \<and> materialPacks w' = materialPacks w
      \<and> numDrawSurfs w' = numDrawSurfs w \<and> totalDrawSurfs w' = totalDrawSurfs w
      \<and> dynamicDrawSurfsOffset w' = dynamicDrawSurfsOffset w
      \<and> dynamicDrawSurfsSize w' = dynamicDrawSurfsSize w
      \<and> materialsSize w' = materialsSize w
      \<and> (\<forall>d. ds_shader (refdef_drawSurfs w' d) = ds_shader (refdef_drawSurfs w d)
             \<and> materialIDs (refdef_drawSurfs w' d) = materialIDs (refdef_drawSurfs w d)
             \<and> materialPackIDs (refdef_drawSurfs w' d) = materialPackIDs (refdef_drawSurfs w d))
      \<and> (\<exists>new. ssbo_writes w' = ssbo_writes w @ new))"

text \<open>
  The log entries of a material with padded size \<open>ps\<close> whose instance counters run from
  \<open>(cs, cd)\<close> to \<open>(cs', cd')\<close>: every entry is a whole instance in the static or in
  the dynamic region of the material, at one of the counter values passed.
\<close>

definition slots_of ::
  "Material \<Rightarrow> nat \<Rightarrow> nat \<times> nat \<Rightarrow> nat \<times> nat \<Rightarrow> ssbo_write \<Rightarrow> bool" where
  "slots_of m ps from to e =
     (w_paddedSize e = ps
      \<and> (if w_dynamic e
          then (\<exists>c. snd from \<le> c \<and> c < snd to
                  \<and> w_offset e = dynamicMaterialsSSBOOffset m + c * ps)
          else (\<exists>c. fst from \<le> c \<and> c < fst to
                  \<and> w_offset e = staticMaterialsSSBOOffset m + c * ps)))"


text \<open>
  The static instance counts cover the static stage instances: for every material, the
  running static counter plus the number of static stage instances that the fill loop
  will visit for it does not exceed \<^verbatim>\<open>totalStaticDrawSurfCount\<close>.
\<close>

definition static_counts_cover :: "world \<Rightarrow> bool" where
  "static_counts_cover w =
     (\<forall>p \<in> set [0 ..< 3]. \<forall>m \<in> set (materialPacks w p).
        currentStaticDrawSurfCount m
          + visits_count w (surf_stages w) p (mat_id m) False (drawSurfs m)
        \<le> totalStaticDrawSurfCount m)"

text \<open>What the size of the dynamic region depends on.\<close>

definition dyn_view :: "(GLShader \<Rightarrow> nat) \<Rightarrow> Material \<Rightarrow> nat \<times> nat \<times> nat" where
  "dyn_view G m = (the_paddedSize G m, totalDynamicDrawSurfCount m, dynamicMaterialsSSBOOffset m)"

subsection \<open>Notions used in the statements about the classification\<close>

text \<open>
  What \<^verbatim>\<open>ProcessStage\<close> does to the material it has selected for stage instance
  \<open>d\<close>: the three counter increments and the insertion of the surface into
  \<^verbatim>\<open>drawSurfs\<close> if it is not there yet.
\<close>

definition count_drawSurf :: "nat \<Rightarrow> bool \<Rightarrow> Material \<Rightarrow> Material" where
  "count_drawSurf d dyn m0 =
     (let m1 = m0\<lparr>totalDrawSurfCount := totalDrawSurfCount m0 + 1\<rparr>;
          m2 = (if dyn
                then m1\<lparr>totalDynamicDrawSurfCount := totalDynamicDrawSurfCount m1 + 1\<rparr>
                else m1\<lparr>totalStaticDrawSurfCount := totalStaticDrawSurfCount m1 + 1\<rparr>)
      in if d \<in> set (drawSurfs m2) then m2 else m2\<lparr>drawSurfs := drawSurfs m2 @ [d]\<rparr>)"

text \<open>The key that \<^verbatim>\<open>Material_eq\<close> compares.\<close>

definition material_key ::
  "Material \<Rightarrow> u32 \<times> shaderBinder_t \<times> nat \<times> nat \<times> nat \<times> bool \<times> nat" where
  "material_key m =
     (stateBits m, shaderBinder m, cullType m, vbo m, ibo m, useSync m, syncMaterial m)"

text \<open>
  The remapped shader of a surface, and the surfaces that the classification loop does
  not skip.
\<close>

definition remapped_of :: "world \<Rightarrow> nat \<Rightarrow> nat" where
  "remapped_of w psh = (case remappedShader (shaders w psh) of Some r \<Rightarrow> r | None \<Rightarrow> psh)"

definition eligible :: "world \<Rightarrow> nat \<Rightarrow> bool" where
  "eligible w d =
     (entityIsWorld (refdef_drawSurfs w d)
      \<and> (case ds_shader (refdef_drawSurfs w d) of
            None \<Rightarrow> False
          | Some psh \<Rightarrow>
              \<not> isSky (shaders w (remapped_of w psh))
              \<and> \<not> isPortal (shaders w (remapped_of w psh))
              \<and> \<not> autoSpriteMode (shaders w (remapped_of w psh)))
      \<and> \<not> surfaceIsSkip (refdef_drawSurfs w d))"

text \<open>
  The stage instances that the classification loop processes: stage \<open>k\<close> of an eligible
  surface \<open>d\<close> below \<^verbatim>\<open>numDrawSurfs\<close>.
\<close>

definition processed :: "world \<Rightarrow> nat \<Rightarrow> nat \<Rightarrow> bool" where
  "processed w d k = (d < numDrawSurfs w \<and> eligible w d \<and> k \<in> set (surf_stages w d))"

text \<open>
  The candidate key of stage \<open>k\<close> of surface \<open>d\<close>: the masked state bits and the binder
  of the stage, the cull type of the remapped shader, the buffers of the surface, and
  the sync target, which is the material of the previous stage of the surface unless
  \<open>k\<close> is the first stage.
\<close>

definition stage_key ::
  "tr_consts \<Rightarrow> world \<Rightarrow> nat \<Rightarrow> nat
     \<Rightarrow> u32 \<times> shaderBinder_t \<times> nat \<times> nat \<times> nat \<times> bool \<times> nat" where
  "stage_key C w d k =
     (case ds_shader (refdef_drawSurfs w d) of
        None \<Rightarrow> (0, BindShaderNONE, 0, 0, 0, False, 0)
      | Some psh \<Rightarrow>
          (stage_stateBits (stages (shaders w psh) ! k) AND stateBits_mask C,
           stage_shaderBinder (stages (shaders w psh) ! k),
           sh_cullType (shaders w (remapped_of w psh)),
           surf_vbo (refdef_drawSurfs w d), surf_ibo (refdef_drawSurfs w d),
           k > 0,
           if k > 0 then materialIDs (refdef_drawSurfs w d) (k - 1) else 0))"

text \<open>The pack of a surface: the pack of the sort of its remapped shader.\<close>

definition surf_pack :: "tr_consts \<Rightarrow> world \<Rightarrow> nat \<Rightarrow> nat" where
  "surf_pack C w d =
     (case ds_shader (refdef_drawSurfs w d) of
        None \<Rightarrow> 0
      | Some psh \<Rightarrow> materialPack_of C (sh_sort (shaders w (remapped_of w psh))))"

text \<open>
  A stage whose dynamic flag \<^verbatim>\<open>ComputeDynamics\<close> does not change any more.
\<close>

definition settled :: "shaderStage_t \<Rightarrow> bool" where
  "settled st = (dynamic (ComputeDynamics st) = dynamic st)"

text \<open>
  The invariants of the classification loop. \<open>np d\<close> is the number of stages of
  surface \<open>d\<close> that have been processed. First, the ids: \<^verbatim>\<open>packIDs\<close> holds the sizes
  of the packs and every material sits at the index that is its id.
\<close>

definition ids_ok :: "world \<Rightarrow> (nat \<Rightarrow> nat) \<Rightarrow> bool" where
  "ids_ok w packIDs =
     (\<forall>p < 3. packIDs p = length (materialPacks w p)
        \<and> (\<forall>j < length (materialPacks w p). mat_id (materialPacks w p ! j) = j))"

text \<open>
  Second, the processed stage instances: each belongs to a surface with a shader, is a
  settled stage of it, and is assigned to a material that exists and lists the surface.
\<close>

definition assigned_ok :: "world \<Rightarrow> (nat \<Rightarrow> nat) \<Rightarrow> bool" where
  "assigned_ok w np =
     (\<forall>d k. k < np d \<longrightarrow>
        (\<exists>psh. ds_shader (refdef_drawSurfs w d) = Some psh
           \<and> k < length (stages (shaders w psh))
           \<and> settled (stages (shaders w psh) ! k))
        \<and> materialPackIDs (refdef_drawSurfs w d) k < 3
        \<and> materialIDs (refdef_drawSurfs w d) k
             < length (materialPacks w (materialPackIDs (refdef_drawSurfs w d) k))
        \<and> d \<in> set (drawSurfs (materialPacks w (materialPackIDs (refdef_drawSurfs w d) k)
                                ! materialIDs (refdef_drawSurfs w d) k)))"

text \<open>
  Third, the counters: the running counters are still zero, no surface is listed twice,
  and the total static and dynamic counts of a material are the numbers of processed
  static and dynamic stage instances assigned to it.
\<close>

definition counted :: "world \<Rightarrow> (nat \<Rightarrow> nat) \<Rightarrow> bool" where
  "counted w np =
     (\<forall>p < 3. \<forall>j < length (materialPacks w p).
        currentStaticDrawSurfCount (materialPacks w p ! j) = 0
        \<and> currentDynamicDrawSurfCount (materialPacks w p ! j) = 0
        \<and> distinct (drawSurfs (materialPacks w p ! j))
        \<and> totalStaticDrawSurfCount (materialPacks w p ! j)
             = visits_count w (\<lambda>d. [0 ..< np d]) p j False (drawSurfs (materialPacks w p ! j))
        \<and> totalDynamicDrawSurfCount (materialPacks w p ! j)
             = visits_count w (\<lambda>d. [0 ..< np d]) p j True (drawSurfs (materialPacks w p ! j)))"

text \<open>
  Fourth, the keys: a material with a sync target was created after that target, no two
  materials of a pack have the same key, and every processed stage instance is assigned
  to the material of its pack that has its candidate key.
\<close>

definition keyed :: "tr_consts \<Rightarrow> world \<Rightarrow> (nat \<Rightarrow> nat) \<Rightarrow> bool" where
  "keyed C w np =
     ((\<forall>p < 3. \<forall>j < length (materialPacks w p).
         (useSync (materialPacks w p ! j) \<longrightarrow> syncMaterial (materialPacks w p ! j) < j)
         \<and> (\<forall>j' < length (materialPacks w p).
               material_key (materialPacks w p ! j') = material_key (materialPacks w p ! j)
               \<longrightarrow> j' = j))
      \<and> (\<forall>d k. k < np d \<longrightarrow>
            materialPackIDs (refdef_drawSurfs w d) k = surf_pack C w d
            \<and> material_key (materialPacks w (surf_pack C w d) ! materialIDs (refdef_drawSurfs w d) k)
                 = stage_key C w d k))"

subsection \<open>RenderMaterial: the colours of r_showGlobalMaterials (lines 2212 to 2284)\<close>

text \<open>
  The enumeration \<^verbatim>\<open>MaterialDebugMode\<close> is declared outside this file; the ordinals of
  its three enumerators that the \<^verbatim>\<open>switch\<close> names are parameters.
\<close>

record debug_ordinals =
  ord_DEPTH :: int
  ord_OPAQUE :: int
  ord_OPAQUE_TRANSPARENT :: int

text \<open>
  The divisor of \<^verbatim>\<open>material.id * 6.0 / ...\<close> inside the index of \<^verbatim>\<open>colors\<close>, for the
  value \<open>mode\<close> of \<^verbatim>\<open>r_showGlobalMaterials\<close>: \<open>None\<close> when the block is not entered, when the
  case returns before the division, and in the \<^verbatim>\<open>default\<close> case.
\<close>

definition showGlobalMaterials_divisor ::
  "debug_ordinals \<Rightarrow> int \<Rightarrow> (nat \<Rightarrow> Material list) \<Rightarrow> Material \<Rightarrow> nat option" where
  "showGlobalMaterials_divisor D mode packs material =
     (if mode \<noteq> 0 \<and> mat_sort material \<noteq> 0
         \<and> (shaderBinder material = BindShaderLightMapping
              \<or> shaderBinder material = BindShaderGeneric3D)
      then (if mode = ord_DEPTH D
            then (if mat_sort material \<noteq> 1 then None else Some (length (packs 0)))
            else if mode = ord_OPAQUE D
            then (if mat_sort material \<noteq> 1 then None
                  else Some (length (packs 1) + length (packs 2)))
            else if mode = ord_OPAQUE_TRANSPARENT D
            then (if mat_sort material = 0 then None
                  else Some (length (packs 1) + length (packs 2)))
            else None)
      else None)"

text \<open>
  The index \<^verbatim>\<open>int( material.id * 6.0 / divisor )\<close> into the six entries of \<^verbatim>\<open>colors\<close>.
  With a divisor of zero the quotient is infinite or not a number, the conversion to
  \<^verbatim>\<open>int\<close> has no defined value, and there is no result; an index of six or more is
  outside the array, and there is no result either.
\<close>

definition colors_index :: "nat \<Rightarrow> nat \<Rightarrow> nat option" where
  "colors_index ident divisor =
     (if divisor = 0 then None
      else if ident * 6 div divisor < 6 then Some (ident * 6 div divisor) else None)"

definition example_ordinals :: debug_ordinals where
  "example_ordinals = \<lparr>ord_DEPTH = 1, ord_OPAQUE = 2, ord_OPAQUE_TRANSPARENT = 3\<rparr>"

subsection \<open>AddPortalSurface and AddPortalSurfaces (lines 1954 to 2037)\<close>














subsection \<open>RenderMaterial: texture residency (lines 2174 to 2206)\<close>

text \<open>
  Modelled from the spec: the class \<^verbatim>\<open>Texture\<close> and the driver's bindless residency are
  not among the sources. The spec has textures "GPU-resident for bindless access",
  "subject to a hardware-limited resident working set", and residency that "fails (memory
  pressure)". The driver keeps the set of resident textures; the parameter \<open>accepts\<close> says
  whether it makes a texture resident on top of a given resident set.
  \<^verbatim>\<open>MakeResident\<close> adds the texture when the driver accepts it, \<^verbatim>\<open>MakeNonResident\<close> removes
  it, and \<^verbatim>\<open>IsResident\<close> and \<^verbatim>\<open>glIsTextureHandleResidentARB\<close> read the set.
\<close>

definition Texture_MakeResident :: "(nat set \<Rightarrow> nat \<Rightarrow> bool) \<Rightarrow> nat \<Rightarrow> nat set \<Rightarrow> nat set" where
  "Texture_MakeResident accepts texture R = (if accepts R texture then insert texture R else R)"

definition Texture_MakeNonResident :: "nat \<Rightarrow> nat set \<Rightarrow> nat set" where
  "Texture_MakeNonResident texture R = R - {texture}"

text \<open>The two calls of \<^verbatim>\<open>Log::Warn\<close>, with the arguments of the first.\<close>

datatype warning = MakingNonResident nat nat | NotEnoughTextureSpace

text \<open>
  The state: the materials by address, \<^verbatim>\<open>renderedMaterials\<close> (addresses, in the order
  in which \<^verbatim>\<open>RenderMaterials\<close> appended them), the resident set and the warnings logged.
\<close>

record residency_state =
  rs_materials :: "nat \<Rightarrow> Material"
  renderedMaterials :: "nat list"
  residentTextures :: "nat set"
  warnings :: "warning list"

text \<open>The loop over \<^verbatim>\<open>mat->textures\<close> (lines 2187 to 2191).\<close>

fun evict_textures :: "nat list \<Rightarrow> nat set \<Rightarrow> nat set" where
  "evict_textures [] R = R"
| "evict_textures (tex # texs) R =
     evict_textures texs (if tex \<in> R then Texture_MakeNonResident tex R else R)"

text \<open>The loop over \<^verbatim>\<open>renderedMaterials\<close> (lines 2185 to 2193).\<close>

fun evict_materials :: "nat list \<Rightarrow> residency_state \<Rightarrow> residency_state" where
  "evict_materials [] s = s"
| "evict_materials (mat # mats) s =
     (let m = rs_materials s mat;
          s1 = s\<lparr>warnings := warnings s
                   @ [MakingNonResident (mat_id m) (length (mat_textures m))]\<rparr>;
          s2 = s1\<lparr>residentTextures := evict_textures (mat_textures m) (residentTextures s1)\<rparr>;
          s3 = s2\<lparr>rs_materials := (rs_materials s2)
                   (mat := (rs_materials s2 mat)\<lparr>texturesResident := False\<rparr>)\<rparr>
      in evict_materials mats s3)"

text \<open>
  The loop over \<^verbatim>\<open>material.textures\<close> (lines 2175 to 2204); the \<^verbatim>\<open>break\<close> ends it.
\<close>

fun make_resident ::
  "(nat set \<Rightarrow> nat \<Rightarrow> bool) \<Rightarrow> nat list \<Rightarrow> residency_state \<Rightarrow> residency_state" where
  "make_resident accepts [] s = s"
| "make_resident accepts (texture # rest) s =
     (if texture \<in> residentTextures s then make_resident accepts rest s
      else
       (let s1 = s\<lparr>residentTextures :=
                     Texture_MakeResident accepts texture (residentTextures s)\<rparr>
        in if texture \<in> residentTextures s1 then make_resident accepts rest s1
           else
            (let s2 = evict_materials (renderedMaterials s1) s1;
                 s3 = s2\<lparr>residentTextures :=
                          Texture_MakeResident accepts texture (residentTextures s2)\<rparr>
             in if texture \<notin> residentTextures s3
                then s3\<lparr>warnings := warnings s3 @ [NotEnoughTextureSpace]\<rparr>
                else make_resident accepts rest s3)))"

text \<open>
  Lines 2174 to 2206 of \<^verbatim>\<open>RenderMaterial\<close> for the material at address \<open>material\<close>. No
  path of it ends the program or leaves the function.
\<close>

definition RenderMaterial_residency ::
  "(nat set \<Rightarrow> nat \<Rightarrow> bool) \<Rightarrow> nat \<Rightarrow> residency_state \<Rightarrow> residency_state" where
  "RenderMaterial_residency accepts material s =
     (let s1 = (if \<not> texturesResident (rs_materials s material)
                then make_resident accepts (mat_textures (rs_materials s material)) s
                else s)
      in s1\<lparr>rs_materials := (rs_materials s1)
               (material := (rs_materials s1 material)\<lparr>texturesResident := True\<rparr>)\<rparr>)"

text \<open>
  The textures of the rendered materials, and a driver that keeps at most \<open>n\<close> textures
  resident. A scene for concrete inputs: the materials 1 and 2 were rendered, their
  textures 10 and 20 are resident, and material 3 with the texture 30 is next.
\<close>

definition rendered_textures :: "residency_state \<Rightarrow> nat set" where
  "rendered_textures s =
     (\<Union>mat \<in> set (renderedMaterials s). set (mat_textures (rs_materials s mat)))"

definition budget :: "nat \<Rightarrow> nat set \<Rightarrow> nat \<Rightarrow> bool" where
  "budget n R texture = (card R < n)"

definition residency_example :: residency_state where
  "residency_example =
     \<lparr>rs_materials = (\<lambda>a. Material_default\<lparr>mat_id := a, mat_textures := [10 * a],
                           texturesResident := (a = 1 \<or> a = 2)\<rparr>),
      renderedMaterials = [1, 2], residentTextures = {10, 20}, warnings = []\<rparr>"

section \<open>Properties\<close>

subsection \<open>AddTexture\<close>



subsection \<open>Batch counts and offsets\<close>


lemma batchCount_of_ceiling:
  assumes "0 < N"
  shows "batchCount_of N c = nat \<lceil>real c / real N\<rceil>"
proof (cases "c mod N = 0")
  case True
  then obtain k where k: "c = N * k" by (auto simp: mod_eq_0_iff_dvd)
  with assms show ?thesis by (simp add: batchCount_of_def)
next
  case False
  have c: "c = N * (c div N) + c mod N" by simp
  have m: "0 < c mod N" "c mod N < N" using False assms by auto
  have "real c = real N * real (c div N) + real (c mod N)"
    by (metis c of_nat_add of_nat_mult)
  then have "real c / real N = real (c div N) + real (c mod N) / real N"
    using assms by (simp add: field_simps)
  moreover have "0 < real (c mod N) / real N" "real (c mod N) / real N < 1"
    using m assms by auto
  ultimately have "\<lceil>real c / real N\<rceil> = int (c div N) + 1"
    by (intro ceiling_unique) auto
  with False show ?thesis by (simp add: batchCount_of_def)
qed

lemma batch_materials_append:
  "batch_materials N (xs @ ys) acc =
     (let (xs', a1) = batch_materials N xs acc;
          (ys', a2) = batch_materials N ys a1
      in (xs' @ ys', a2))"
proof (induction xs arbitrary: acc)
  case Nil
  show ?case by (simp split: prod.splits)
next
  case (Cons x xs)
  obtain b g t where acc: "acc = (b, g, t)" by (cases acc)
  show ?case unfolding acc
    by (simp add: Cons.IH Let_def split: prod.splits)
qed


lemma batch_materials_result:
  "batch_materials N ms (b, g, t) = (ms', acc') \<Longrightarrow>
     length ms' = length ms
     \<and> acc' = (b + sum_list (map (material_batchCount N) ms), g + length ms, t + sum_list (map (material_batchCount N) ms))
     \<and> (\<forall>i < length ms. ms' ! i = (ms ! i)\<lparr>surfaceCommandBatchOffset := b + sum_list (map (material_batchCount N) (take i ms)),
             surfaceCommandBatchCount := material_batchCount N (ms ! i), globalID := g + i\<rparr>)"
proof (induction ms arbitrary: b g t ms' acc')
  case Nil
  then show ?case by simp
next
  case (Cons m ms)
  obtain r a where r: "batch_materials N ms (b + material_batchCount N m, g + 1, t + material_batchCount N m) = (r, a)"
    by (cases "batch_materials N ms (b + material_batchCount N m, g + 1, t + material_batchCount N m)") auto
  from Cons.prems r have ms': "ms' = m\<lparr>surfaceCommandBatchOffset := b,
      surfaceCommandBatchCount := material_batchCount N m, globalID := g\<rparr> # r" and a: "acc' = a"
    by (simp_all add: Let_def material_batchCount_def)
  note IH = Cons.IH [OF r]
  show ?case
  proof (intro conjI allI impI)
    show "length ms' = length (m # ms)" using IH ms' by simp
    show "acc' = (b + sum_list (map (material_batchCount N) (m # ms)), g + length (m # ms),
        t + sum_list (map (material_batchCount N) (m # ms)))" using IH a by simp
    fix i assume "i < length (m # ms)"
    then show "ms' ! i = ((m # ms) ! i)\<lparr>surfaceCommandBatchOffset := b + sum_list (map (material_batchCount N) (take i (m # ms))),
             surfaceCommandBatchCount := material_batchCount N ((m # ms) ! i), globalID := g + i\<rparr>"
      using IH ms' by (cases i) (simp_all add: add.assoc)
  qed
qed


lemma GenerateWorldCommandBuffer_batches_flat:
  assumes "GenerateWorldCommandBuffer_batches N packs = (packs', tot)"
  shows "batch_materials N (all_materials packs) (0, 0, 0) = (all_materials packs', snd (batch_materials N (all_materials packs) (0, 0, 0)))"
    and "tot = snd (snd (snd (batch_materials N (all_materials packs) (0, 0, 0))))"
    and "\<forall>p. length (packs' p) = length (packs p)"
proof -
  obtain p0 a0 where r0: "batch_materials N (packs 0) (0, 0, 0) = (p0, a0)"
    by (cases "batch_materials N (packs 0) (0, 0, 0)") auto
  obtain p1 a1 where r1: "batch_materials N (packs 1) a0 = (p1, a1)"
    by (cases "batch_materials N (packs 1) a0") auto
  obtain p2 a2 where r2: "batch_materials N (packs 2) a1 = (p2, a2)"
    by (cases "batch_materials N (packs 2) a1") auto
  from assms r0 r1 r2 have packs': "packs' = packs(0 := p0, 1 := p1, 2 := p2)"
    and tot: "tot = snd (snd a2)"
    by (simp_all add: GenerateWorldCommandBuffer_batches_def)
  have flat: "batch_materials N (all_materials packs) (0, 0, 0) = (p0 @ p1 @ p2, a2)"
    using r0 r1 r2 by (simp add: all_materials_def batch_materials_append)
  have am: "all_materials packs' = p0 @ p1 @ p2"
    by (simp add: all_materials_def packs')
  show "batch_materials N (all_materials packs) (0, 0, 0) = (all_materials packs', snd (batch_materials N (all_materials packs) (0, 0, 0)))"
    by (simp add: flat am)
  show "tot = snd (snd (snd (batch_materials N (all_materials packs) (0, 0, 0))))"
    by (simp add: flat tot)
  obtain b0 g0 t0 where a0: "a0 = (b0, g0, t0)" by (cases a0)
  obtain b1 g1 t1 where a1: "a1 = (b1, g1, t1)" by (cases a1)
  have "length p0 = length (packs 0)" using batch_materials_result [OF r0] by simp
  moreover have "length p1 = length (packs 1)" using batch_materials_result [OF r1 [unfolded a0]] by simp
  moreover have "length p2 = length (packs 2)" using batch_materials_result [OF r2 [unfolded a1]] by simp
  ultimately show "\<forall>p. length (packs' p) = length (packs p)"
    by (simp add: packs')
qed

text \<open>
  C4. With a positive \<^verbatim>\<open>SURFACE_COMMANDS_PER_BATCH\<close>, the first loop of
  \<^verbatim>\<open>GenerateWorldCommandBuffer\<close> keeps every pack's materials and their draw commands
  and gives every material the batch count \<open>\<lceil>drawCommands.size() / N\<rceil>\<close>; the batch
  offset of a material is the sum of the batch counts of all materials before it in pack
  order (all earlier packs and the earlier materials of its own pack), so the offsets never
  decrease along that order; and \<^verbatim>\<open>totalBatchCount\<close> is the sum of all batch counts.
\<close>

theorem GenerateWorldCommandBuffer_batches_correct:
  "0 < N \<Longrightarrow> GenerateWorldCommandBuffer_batches N packs = (packs', tot) \<Longrightarrow>
     (\<forall>p. length (packs' p) = length (packs p))
   \<and> map drawCommands (all_materials packs') = map drawCommands (all_materials packs)
   \<and> (\<forall>i < length (all_materials packs').
        surfaceCommandBatchCount (all_materials packs' ! i)
          = nat \<lceil>real (length (drawCommands (all_materials packs' ! i))) / real N\<rceil>)
   \<and> (\<forall>i < length (all_materials packs').
        surfaceCommandBatchOffset (all_materials packs' ! i)
          = sum_list (map surfaceCommandBatchCount (take i (all_materials packs'))))
   \<and> (\<forall>i j. i \<le> j \<longrightarrow> j < length (all_materials packs') \<longrightarrow>
        surfaceCommandBatchOffset (all_materials packs' ! i)
          \<le> surfaceCommandBatchOffset (all_materials packs' ! j))
   \<and> tot = sum_list (map surfaceCommandBatchCount (all_materials packs'))"
proof -
  assume N: "0 < N" and res: "GenerateWorldCommandBuffer_batches N packs = (packs', tot)"
  define ms where "ms = all_materials packs"
  define ms' where "ms' = all_materials packs'"
  obtain acc where run: "batch_materials N ms (0, 0, 0) = (ms', acc)"
    using GenerateWorldCommandBuffer_batches_flat(1) [OF res] by (simp add: ms_def ms'_def)
  have tot: "tot = snd (snd acc)"
    using GenerateWorldCommandBuffer_batches_flat(2) [OF res] run by (simp add: ms_def)
  note R = batch_materials_result [OF run]
  have len: "length ms' = length ms" using R by simp
  have el: "\<And>i. i < length ms \<Longrightarrow> ms' ! i = (ms ! i)\<lparr>surfaceCommandBatchOffset := sum_list (map (material_batchCount N) (take i ms)),
             surfaceCommandBatchCount := material_batchCount N (ms ! i), globalID := i\<rparr>"
    using R by simp
  have dc: "map drawCommands ms' = map drawCommands ms"
    by (rule nth_equalityI) (simp_all add: len el)
  have cnt: "map surfaceCommandBatchCount ms' = map (material_batchCount N) ms"
    by (rule nth_equalityI) (simp_all add: len el)
  have off: "\<And>i. i < length ms \<Longrightarrow> surfaceCommandBatchOffset (ms' ! i) = sum_list (map surfaceCommandBatchCount (take i ms'))"
    by (simp add: el take_map [symmetric] cnt)
  have c1: "\<forall>i < length ms'. surfaceCommandBatchCount (ms' ! i)
          = nat \<lceil>real (length (drawCommands (ms' ! i))) / real N\<rceil>"
    using N by (simp add: len el material_batchCount_def batchCount_of_ceiling)
  have mono: "\<forall>i j. i \<le> j \<longrightarrow> j < length ms' \<longrightarrow>
        surfaceCommandBatchOffset (ms' ! i) \<le> surfaceCommandBatchOffset (ms' ! j)"
  proof (intro allI impI)
    fix i j assume ij: "i \<le> j" and j: "j < length ms'"
    define cs where "cs = map surfaceCommandBatchCount ms'"
    have "take j cs = take i cs @ drop i (take j cs)"
      using ij by (metis append_take_drop_id min.absorb1 take_take)
    then have "sum_list (take i cs) \<le> sum_list (take j cs)"
      by (metis le_add1 sum_list_append)
    then show "surfaceCommandBatchOffset (ms' ! i) \<le> surfaceCommandBatchOffset (ms' ! j)"
      using ij j by (simp add: off len cs_def take_map)
  qed
  have t: "tot = sum_list (map surfaceCommandBatchCount ms')"
    using R tot by (simp add: cnt)
  show ?thesis
    using GenerateWorldCommandBuffer_batches_flat(3) [OF res] dc c1 off mono t unfolding ms_def ms'_def len [unfolded ms_def ms'_def]
    by (simp add: len [unfolded ms_def ms'_def])
qed

text \<open>
  Three materials with 3, 0 and 5 draw commands in two packs and batches of 2 commands.
\<close>

theorem GenerateWorldCommandBuffer_batches_correct_witness:
  "(0::nat) < 2 \<and>
   (\<exists>packs'. GenerateWorldCommandBuffer_batches 2
        ((\<lambda>_. [])(0 := [Material_default\<lparr>drawCommands := replicate 3 DrawCommand_default\<rparr>],
                   1 := [Material_default,
                         Material_default\<lparr>drawCommands := replicate 5 DrawCommand_default\<rparr>]))
      = (packs', 5)
    \<and> map surfaceCommandBatchCount (all_materials packs') = [2, 0, 3]
    \<and> map surfaceCommandBatchOffset (all_materials packs') = [0, 2, 2])"
  using GenerateWorldCommandBuffer_batches_correct [of 2
        "((\<lambda>_. [])(0 := [Material_default\<lparr>drawCommands := replicate 3 DrawCommand_default\<rparr>],
                   1 := [Material_default,
                         Material_default\<lparr>drawCommands := replicate 5 DrawCommand_default\<rparr>]))"
        "fst (GenerateWorldCommandBuffer_batches 2
        ((\<lambda>_. [])(0 := [Material_default\<lparr>drawCommands := replicate 3 DrawCommand_default\<rparr>],
                   1 := [Material_default,
                         Material_default\<lparr>drawCommands := replicate 5 DrawCommand_default\<rparr>])))"
        "snd (GenerateWorldCommandBuffer_batches 2
        ((\<lambda>_. [])(0 := [Material_default\<lparr>drawCommands := replicate 3 DrawCommand_default\<rparr>],
                   1 := [Material_default,
                         Material_default\<lparr>drawCommands := replicate 5 DrawCommand_default\<rparr>])))"]
  by (simp add: GenerateWorldCommandBuffer_batches_def batchCount_of_def all_materials_def Let_def Material_default_def)


subsection \<open>ComputeDynamics\<close>

lemma ComputeDynamics_dynamic:
  "dynamic (ComputeDynamics st) =
     (dynamic st \<or> exps_dynamic st \<or> rgbGen_dynamic (rgbGen st) \<or> alphaGen_dynamic (alphaGen st)
      \<or> texMatricesDynamic st \<or> texMods_dynamic (stage_bundle st)
      \<or> texturesDynamic st \<or> bundles_texturesDynamic (stage_bundle st))"
  by (auto simp add: ComputeDynamics_def Let_def exps_dynamic_def)

text \<open>
  What the code does guarantee: a stage comes out dynamic when its colour or alpha
  generator is a waveform or custom one, when a texture modifier other than a stretch is
  time-varying, when a bundle with a stretch has a waveform in its first modifier, and
  when a bundle is a video map or has more than one image.
\<close>

lemma ComputeDynamics_marks_dynamic:
  assumes "rgbGen st \<in> {CGEN_WAVEFORM, CGEN_CUSTOM_RGB, CGEN_CUSTOM_RGBs}
         \<or> alphaGen st \<in> {AGEN_WAVEFORM, AGEN_CUSTOM}
         \<or> (\<exists>b \<in> set (stage_bundle st). \<exists>i < numTexMods b.
               texMod_time_varying (texMods b i) \<and> tmod_type (texMods b i) \<noteq> TMOD_STRETCH)
         \<or> (\<exists>b \<in> set (stage_bundle st). \<exists>i < numTexMods b.
               tmod_type (texMods b i) = TMOD_STRETCH \<and> wave_func (texMods b 0) \<noteq> GF_NONE)
         \<or> (\<exists>b \<in> set (stage_bundle st). isVideoMap b \<or> numImages b > 1)"
  shows "dynamic (ComputeDynamics st)"
proof -
  have tm: "texMods_dynamic (stage_bundle st)"
    if "b \<in> set (stage_bundle st)" "i < numTexMods b" "texMod_dynamic b i" for b i
    using that unfolding texMods_dynamic_def bundle_texMods_dynamic_def
    by (auto intro!: bexI [of _ b] bexI [of _ i])
  from assms show ?thesis
    unfolding ComputeDynamics_dynamic
  proof (elim disjE bexE exE conjE)
    fix b i
    assume "b \<in> set (stage_bundle st)" "i < numTexMods b"
      "texMod_time_varying (texMods b i)" "tmod_type (texMods b i) \<noteq> TMOD_STRETCH"
    then show "dynamic st \<or> exps_dynamic st \<or> rgbGen_dynamic (rgbGen st) \<or> alphaGen_dynamic (alphaGen st)
      \<or> texMatricesDynamic st \<or> texMods_dynamic (stage_bundle st)
      \<or> texturesDynamic st \<or> bundles_texturesDynamic (stage_bundle st)"
      using tm [of b i] by (auto simp: texMod_time_varying_def texMod_dynamic_def)
  next
    fix b i
    assume "b \<in> set (stage_bundle st)" "i < numTexMods b"
      "tmod_type (texMods b i) = TMOD_STRETCH" "wave_func (texMods b 0) \<noteq> GF_NONE"
    then show "dynamic st \<or> exps_dynamic st \<or> rgbGen_dynamic (rgbGen st) \<or> alphaGen_dynamic (alphaGen st)
      \<or> texMatricesDynamic st \<or> texMods_dynamic (stage_bundle st)
      \<or> texturesDynamic st \<or> bundles_texturesDynamic (stage_bundle st)"
      using tm [of b i] by (auto simp: texMod_dynamic_def)
  qed (auto simp: bundles_texturesDynamic_def)
qed

text \<open>
  C8. The stage \<open>scale_then_stretch_stage\<close> has a time-varying texture modifier in the
  sense of the specification (its second modifier is a stretch with a waveform), and
  \<^verbatim>\<open>ComputeDynamics\<close> leaves it static: for a stretch at index 1 the code tests the
  waveform of the modifier at index 0.
\<close>

theorem ComputeDynamics_misses_stretch_after_scale:
  "stage_has_time_varying_texMod scale_then_stretch_stage
   \<and> \<not> dynamic (ComputeDynamics scale_then_stretch_stage)
   \<and> \<not> texMatricesDynamic (ComputeDynamics scale_then_stretch_stage)"
proof -
  have tv: "texMod_time_varying (texMods scale_then_stretch_bundle 1)"
    by (simp add: texMod_time_varying_def scale_then_stretch_bundle_def texModInfo_none_def)
  have "stage_has_time_varying_texMod scale_then_stretch_stage"
    unfolding stage_has_time_varying_texMod_def
    by (rule bexI [of _ scale_then_stretch_bundle], rule bexI [of _ 1], rule tv)
      (simp_all add: scale_then_stretch_stage_def scale_then_stretch_bundle_def)
  moreover have "\<not> texMod_dynamic scale_then_stretch_bundle 0"
    and "\<not> texMod_dynamic scale_then_stretch_bundle (Suc 0)"
    by (simp_all add: texMod_dynamic_def scale_then_stretch_bundle_def texModInfo_none_def)
  then have "\<not> bundle_texMods_dynamic scale_then_stretch_bundle"
    by (simp add: bundle_texMods_dynamic_def scale_then_stretch_bundle_def numeral_2_eq_2)
  then have "\<not> texMods_dynamic (stage_bundle scale_then_stretch_stage)"
    by (simp add: texMods_dynamic_def scale_then_stretch_stage_def)
  moreover have "\<not> bundles_texturesDynamic (stage_bundle scale_then_stretch_stage)"
    by (simp add: bundles_texturesDynamic_def scale_then_stretch_stage_def
        scale_then_stretch_bundle_def)
  moreover have "\<not> exps_dynamic scale_then_stretch_stage"
    and "\<not> rgbGen_dynamic (rgbGen scale_then_stretch_stage)"
    and "\<not> alphaGen_dynamic (alphaGen scale_then_stretch_stage)"
    and "\<not> dynamic scale_then_stretch_stage"
    and "\<not> texMatricesDynamic scale_then_stretch_stage"
    and "\<not> texturesDynamic scale_then_stretch_stage"
    by (simp_all add: exps_dynamic_def scale_then_stretch_stage_def shaderStage_plain_def)
  ultimately show ?thesis
    by (simp add: ComputeDynamics_dynamic) (simp add: ComputeDynamics_def Let_def)
qed

subsection \<open>The buffer layout and the instance slots\<close>


lemma padding_of_less: "0 < p \<Longrightarrow> padding_of offset p < p"
  by (simp add: padding_of_def)

lemma layout_static_append:
  "layout_static G (xs @ ys) off =
     (case layout_static G xs off of None \<Rightarrow> None
      | Some (xs', off1) \<Rightarrow>
         (case layout_static G ys off1 of None \<Rightarrow> None
          | Some (ys', off2) \<Rightarrow> Some (xs' @ ys', off2)))"
  by (induction xs arbitrary: off) (auto simp: Let_def split: option.splits)




lemma paddedSize_of_dyn_upd [simp]:
  "paddedSize_of G (m\<lparr>dynamicMaterialsSSBOOffset := x\<rparr>) = paddedSize_of G m"
  "paddedSize_of G (m\<lparr>staticMaterialsSSBOOffset := x\<rparr>) = paddedSize_of G m"
  "paddedSize_of G (m\<lparr>currentStaticDrawSurfCount := x\<rparr>) = paddedSize_of G m"
  "paddedSize_of G (m\<lparr>currentDynamicDrawSurfCount := x\<rparr>) = paddedSize_of G m"
  by (simp_all add: paddedSize_of_def)

lemma the_paddedSize_upd [simp]:
  "the_paddedSize G (m\<lparr>dynamicMaterialsSSBOOffset := x\<rparr>) = the_paddedSize G m"
  "the_paddedSize G (m\<lparr>staticMaterialsSSBOOffset := x\<rparr>) = the_paddedSize G m"
  "the_paddedSize G (m\<lparr>currentStaticDrawSurfCount := x\<rparr>) = the_paddedSize G m"
  "the_paddedSize G (m\<lparr>currentDynamicDrawSurfCount := x\<rparr>) = the_paddedSize G m"
  by (simp_all add: the_paddedSize_def)






lemma write_words_below: "a < pos \<Longrightarrow> write_words buf pos ws a = buf a"
  by (simp add: write_words_def)

lemma UpdateSurfaceData_result:
  assumes "UpdateSurfaceData G U shs upd base data m ds k = Some (data', ds', lg)"
  shows "ds_shader ds' = ds_shader ds" "materialIDs ds' = materialIDs ds"
    "materialPackIDs ds' = materialPackIDs ds" "materialsSSBOOffset ds' = materialsSSBOOffset ds"
    "\<forall>a < base. data' a = data a"
    "lg = [] \<or> (\<exists>ps psh. paddedSize_of G m = Some ps \<and> ds_shader ds = Some psh
        \<and> lg = [\<lparr>w_drawSurf = ds, w_stage = k, w_dynamic = dynamic (stages (shs psh) ! k),
                 w_offset = base + materialsSSBOOffset ds k * ps, w_paddedSize = ps\<rparr>])"
  using assms
  by (auto simp: UpdateSurfaceData_def Let_def write_words_below
      split: surfaceDataUpdater_t.splits option.splits if_splits)

lemma buffer_frame_refl [simp]: "buffer_frame w w"
  by (simp add: buffer_frame_def)







lemma slots_of_current [simp]:
  "slots_of (m\<lparr>currentStaticDrawSurfCount := x\<rparr>) = slots_of m"
  "slots_of (m\<lparr>currentDynamicDrawSurfCount := x\<rparr>) = slots_of m"
  by (simp_all add: fun_eq_iff slots_of_def)










lemma all_materials_upd3 [simp]:
  "all_materials (f(0 := a, Suc 0 := b, 2 := c)) = a @ b @ c"
  by (simp add: all_materials_def)

lemma u32_minus_le [simp]: "b \<le> a \<Longrightarrow> u32_minus a b = a - b"
  by (simp add: u32_minus_def)


lemma notions_materialPacks_upd [simp]:
  "stage_matches (w\<lparr>materialPacks := X\<rparr>) = stage_matches w"
  "stage_of (w\<lparr>materialPacks := X\<rparr>) = stage_of w"
  "stage_dynamic (w\<lparr>materialPacks := X\<rparr>) = stage_dynamic w"
  "surf_stages (w\<lparr>materialPacks := X\<rparr>) = surf_stages w"
  "visit_count (w\<lparr>materialPacks := X\<rparr>) = visit_count w"
  "visits_count (w\<lparr>materialPacks := X\<rparr>) = visits_count w"
  by (simp_all add: fun_eq_iff stage_matches_def stage_of_def stage_dynamic_def surf_stages_def
      visit_count_def visits_count_def cong: option.case_cong)











subsection \<open>The classification step\<close>

lemma ComputeDynamics_fields [simp]:
  "stage_stateBits (ComputeDynamics st) = stage_stateBits st"
  "stage_shaderBinder (ComputeDynamics st) = stage_shaderBinder st"
  "materialProcessor (ComputeDynamics st) = materialProcessor st"
  "surfaceDataUpdater (ComputeDynamics st) = surfaceDataUpdater st"
  "rgbGen (ComputeDynamics st) = rgbGen st" "alphaGen (ComputeDynamics st) = alphaGen st"
  "stage_bundle (ComputeDynamics st) = stage_bundle st"
  "exps_dynamic (ComputeDynamics st) = exps_dynamic st"
  by (simp_all add: ComputeDynamics_def Let_def exps_dynamic_def)

lemma ComputeDynamics_flags:
  "texMatricesDynamic (ComputeDynamics st) = (texMatricesDynamic st \<or> texMods_dynamic (stage_bundle st))"
  "texturesDynamic (ComputeDynamics st) = (texturesDynamic st \<or> bundles_texturesDynamic (stage_bundle st))"
  "colorDynamic (ComputeDynamics st) = (rgbGen_dynamic (rgbGen st) \<or> alphaGen_dynamic (alphaGen st))"
  by (auto simp add: ComputeDynamics_def Let_def)

lemma exps_dynamic_useMaterialSystem [simp]:
  "exps_dynamic (st\<lparr>useMaterialSystem := b\<rparr>) = exps_dynamic st"
  by (simp add: exps_dynamic_def)

lemma ComputeDynamics_useMaterialSystem:
  "dynamic (ComputeDynamics (st\<lparr>useMaterialSystem := b\<rparr>)) = dynamic (ComputeDynamics st)"
  by (simp add: ComputeDynamics_dynamic)

text \<open>Running \<^verbatim>\<open>ComputeDynamics\<close> again does not change the dynamic flag.\<close>

lemma ComputeDynamics_settled:
  "settled ((ComputeDynamics st)\<lparr>useMaterialSystem := True\<rparr>)"
  unfolding settled_def
  by (auto simp: ComputeDynamics_useMaterialSystem ComputeDynamics_dynamic ComputeDynamics_flags)

lemma settled_again:
  "settled st \<Longrightarrow> dynamic ((ComputeDynamics st)\<lparr>useMaterialSystem := True\<rparr>) = dynamic st"
  by (simp add: settled_def)

lemma apply_materialProcessor_fields:
  assumes "apply_materialProcessor mp m = Some m'"
  shows "material_key m' = material_key m" "mat_id m' = mat_id m"
    "totalDrawSurfCount m' = totalDrawSurfCount m"
    "totalStaticDrawSurfCount m' = totalStaticDrawSurfCount m"
    "totalDynamicDrawSurfCount m' = totalDynamicDrawSurfCount m"
    "currentStaticDrawSurfCount m' = currentStaticDrawSurfCount m"
    "currentDynamicDrawSurfCount m' = currentDynamicDrawSurfCount m"
    "drawSurfs m' = drawSurfs m"
  using assms by (cases mp; auto simp: material_key_def)+

lemma candidate_material_fields:
  assumes "candidate_material C st shdr ds stage prev0 = Some cand"
  shows "material_key cand = (stage_stateBits st AND stateBits_mask C, stage_shaderBinder st,
            sh_cullType shdr, surf_vbo ds, surf_ibo ds, stage > 0, if stage > 0 then prev0 else 0)"
    "totalStaticDrawSurfCount cand = 0" "totalDynamicDrawSurfCount cand = 0"
    "currentStaticDrawSurfCount cand = 0" "currentDynamicDrawSurfCount cand = 0"
    "drawSurfs cand = []"
  using assms apply_materialProcessor_fields [of "materialProcessor st" _ cand]
  by (auto simp: candidate_material_def Let_def material_key_def Material_default_def)

lemma Material_eq_key: "Material_eq a b \<longleftrightarrow> material_key a = material_key b"
  by (auto simp: Material_eq_def material_key_def)

text \<open>The search: what it finds is equal to the candidate, in the list, and not skipped.\<close>

lemma find_material_Some:
  "find_material cand ms = Some m \<Longrightarrow>
     m \<in> set ms \<and> Material_eq m cand \<and> \<not> (useSync cand \<and> mat_id m < syncMaterial cand)"
  by (induction ms) (auto split: if_splits)

lemma find_material_None:
  "find_material cand ms = None \<longleftrightarrow>
     (\<forall>m \<in> set ms. Material_eq m cand \<longrightarrow> useSync cand \<and> mat_id m < syncMaterial cand)"
  by (induction ms) auto


lemma ProcessStage_result:
  assumes run: "ProcessStage C d (psh, pk) sh (w, packIDs, stage, prev0)
                  = Some (w', packIDs', stage', prev)"
  obtains cand ds' ms1 where
    "candidate_material C (ComputeDynamics (stages (shaders w psh) ! pk)) (shaders w sh) ds' stage prev0
       = Some cand"
    "ds' = refdef_drawSurfs w d \<or> (\<exists>f. ds' = (refdef_drawSurfs w d)\<lparr>ds_texturesDynamic := f\<rparr>)"
    "stage' = stage + 1"
    "case find_material cand (materialPacks w (materialPack_of C (sh_sort (shaders w sh)))) of
       None \<Rightarrow> ms1 = materialPacks w (materialPack_of C (sh_sort (shaders w sh)))
                    @ [cand\<lparr>mat_id := packIDs (materialPack_of C (sh_sort (shaders w sh)))\<rparr>]
              \<and> prev = packIDs (materialPack_of C (sh_sort (shaders w sh)))
              \<and> packIDs' = packIDs(materialPack_of C (sh_sort (shaders w sh)) :=
                   packIDs (materialPack_of C (sh_sort (shaders w sh))) + 1)
     | Some m \<Rightarrow> ms1 = materialPacks w (materialPack_of C (sh_sort (shaders w sh)))
              \<and> prev = mat_id m \<and> packIDs' = packIDs"
    "prev < length ms1"
    "w' = w\<lparr>shaders := (shaders w)(psh := (shaders w psh)\<lparr>stages := (stages (shaders w psh))
                 [pk := (ComputeDynamics (stages (shaders w psh) ! pk))\<lparr>useMaterialSystem := True\<rparr>]\<rparr>),
             refdef_drawSurfs := (refdef_drawSurfs w)(d :=
                 ds'\<lparr>materialIDs := (materialIDs ds')(stage := prev),
                     materialPackIDs := (materialPackIDs ds')
                        (stage := materialPack_of C (sh_sort (shaders w sh)))\<rparr>),
             materialPacks := (materialPacks w)(materialPack_of C (sh_sort (shaders w sh)) :=
                 ms1[prev := count_drawSurf d
                       (dynamic (ComputeDynamics (stages (shaders w psh) ! pk))) (ms1 ! prev)])\<rparr>"
proof -
  let ?p = "materialPack_of C (sh_sort (shaders w sh))"
  let ?st1 = "ComputeDynamics (stages (shaders w psh) ! pk)"
  let ?ds = "if texturesDynamic ?st1
       then (refdef_drawSurfs w d)\<lparr>ds_texturesDynamic := (ds_texturesDynamic (refdef_drawSurfs w d))(stage := True)\<rparr>
       else refdef_drawSurfs w d"
  from run obtain cand where cand: "candidate_material C ?st1 (shaders w sh) ?ds stage prev0 = Some cand"
    by (auto simp: ProcessStage_def Let_def split: option.splits)
  have dsor: "?ds = refdef_drawSurfs w d \<or> (\<exists>f. ?ds = (refdef_drawSurfs w d)\<lparr>ds_texturesDynamic := f\<rparr>)"
    by auto
  show thesis
  proof (cases "find_material cand (materialPacks w ?p)")
    case None
    let ?ms1 = "materialPacks w ?p @ [cand\<lparr>mat_id := packIDs ?p\<rparr>]"
    from run cand None have lt: "packIDs ?p < length ?ms1"
      unfolding ProcessStage_def Let_def by (simp split: if_splits)
    let ?W = "w\<lparr>shaders := (shaders w)(psh := (shaders w psh)\<lparr>stages := (stages (shaders w psh))
                 [pk := ?st1\<lparr>useMaterialSystem := True\<rparr>]\<rparr>),
             refdef_drawSurfs := (refdef_drawSurfs w)(d :=
                 ?ds\<lparr>materialIDs := (materialIDs ?ds)(stage := packIDs ?p),
                     materialPackIDs := (materialPackIDs ?ds)(stage := ?p)\<rparr>),
             materialPacks := (materialPacks w)(?p :=
                 ?ms1[packIDs ?p := count_drawSurf d (dynamic ?st1) (?ms1 ! packIDs ?p)])\<rparr>"
    from cand None lt have "ProcessStage C d (psh, pk) sh (w, packIDs, stage, prev0)
        = Some (?W, packIDs(?p := packIDs ?p + 1), stage + 1, packIDs ?p)"
      unfolding ProcessStage_def Let_def count_drawSurf_def by simp
    from run [unfolded this, symmetric] have r: "stage' = stage + 1" "prev = packIDs ?p"
      "packIDs' = packIDs(?p := packIDs ?p + 1)" and res: "w' = ?W"
      by (simp_all only: option.inject prod.inject)
    have cs: "case find_material cand (materialPacks w ?p) of
       None \<Rightarrow> ?ms1 = materialPacks w ?p @ [cand\<lparr>mat_id := packIDs ?p\<rparr>]
              \<and> prev = packIDs ?p \<and> packIDs' = packIDs(?p := packIDs ?p + 1)
     | Some m \<Rightarrow> ?ms1 = materialPacks w ?p \<and> prev = mat_id m \<and> packIDs' = packIDs"
      using None r by simp
    show thesis
    proof (rule that [OF cand dsor r(1) cs])
      show "prev < length ?ms1" unfolding r(2) by (rule lt)
      show "w' = w\<lparr>shaders := (shaders w)(psh := (shaders w psh)\<lparr>stages := (stages (shaders w psh))
                 [pk := ?st1\<lparr>useMaterialSystem := True\<rparr>]\<rparr>),
             refdef_drawSurfs := (refdef_drawSurfs w)(d :=
                 ?ds\<lparr>materialIDs := (materialIDs ?ds)(stage := prev),
                     materialPackIDs := (materialPackIDs ?ds)(stage := ?p)\<rparr>),
             materialPacks := (materialPacks w)(?p :=
                 ?ms1[prev := count_drawSurf d (dynamic ?st1) (?ms1 ! prev)])\<rparr>"
        unfolding r(2) by (rule res)
    qed
  next
    case (Some m)
    let ?ms1 = "materialPacks w ?p"
    from run cand Some have lt: "mat_id m < length ?ms1"
      unfolding ProcessStage_def Let_def by (simp split: if_splits)
    let ?W = "w\<lparr>shaders := (shaders w)(psh := (shaders w psh)\<lparr>stages := (stages (shaders w psh))
                 [pk := ?st1\<lparr>useMaterialSystem := True\<rparr>]\<rparr>),
             refdef_drawSurfs := (refdef_drawSurfs w)(d :=
                 ?ds\<lparr>materialIDs := (materialIDs ?ds)(stage := mat_id m),
                     materialPackIDs := (materialPackIDs ?ds)(stage := ?p)\<rparr>),
             materialPacks := (materialPacks w)(?p :=
                 ?ms1[mat_id m := count_drawSurf d (dynamic ?st1) (?ms1 ! mat_id m)])\<rparr>"
    from cand Some lt have "ProcessStage C d (psh, pk) sh (w, packIDs, stage, prev0)
        = Some (?W, packIDs, stage + 1, mat_id m)"
      unfolding ProcessStage_def Let_def count_drawSurf_def by simp
    from run [unfolded this, symmetric] have r: "stage' = stage + 1" "prev = mat_id m"
      "packIDs' = packIDs" and res: "w' = ?W"
      by (simp_all only: option.inject prod.inject)
    have cs: "case find_material cand (materialPacks w ?p) of
       None \<Rightarrow> ?ms1 = materialPacks w ?p @ [cand\<lparr>mat_id := packIDs ?p\<rparr>]
              \<and> prev = packIDs ?p \<and> packIDs' = packIDs(?p := packIDs ?p + 1)
     | Some m \<Rightarrow> ?ms1 = materialPacks w ?p \<and> prev = mat_id m \<and> packIDs' = packIDs"
      using Some r by simp
    show thesis
    proof (rule that [OF cand dsor r(1) cs])
      show "prev < length ?ms1" unfolding r(2) by (rule lt)
      show "w' = w\<lparr>shaders := (shaders w)(psh := (shaders w psh)\<lparr>stages := (stages (shaders w psh))
                 [pk := ?st1\<lparr>useMaterialSystem := True\<rparr>]\<rparr>),
             refdef_drawSurfs := (refdef_drawSurfs w)(d :=
                 ?ds\<lparr>materialIDs := (materialIDs ?ds)(stage := prev),
                     materialPackIDs := (materialPackIDs ?ds)(stage := ?p)\<rparr>),
             materialPacks := (materialPacks w)(?p :=
                 ?ms1[prev := count_drawSurf d (dynamic ?st1) (?ms1 ! prev)])\<rparr>"
        unfolding r(2) by (rule res)
    qed
  qed
qed

subsection \<open>The colours of r_showGlobalMaterials\<close>

text \<open>
  Claim C10. In the colour coding of \<^verbatim>\<open>r_showGlobalMaterials\<close> the index into
  \<^verbatim>\<open>colors\<close> is a ratio whose divisor is a material count of the packs, and nothing
  guards it: in the mode \<^verbatim>\<open>DEPTH\<close>, for a material of sort 1 bound by the light-mapping
  or the generic binder, the divisor is the size of pack 0, so with an empty pack 0 the
  division is by zero and the index has no defined value.
\<close>

theorem showGlobalMaterials_divides_by_zero:
  assumes "mode \<noteq> 0" and "mode = ord_DEPTH D" and "mat_sort material = 1"
    and "shaderBinder material = BindShaderLightMapping
           \<or> shaderBinder material = BindShaderGeneric3D"
    and "packs 0 = []"
  shows "\<exists>divisor. showGlobalMaterials_divisor D mode packs material = Some divisor
           \<and> divisor = 0 \<and> colors_index (mat_id material) divisor = None"
  using assms by (auto simp: showGlobalMaterials_divisor_def colors_index_def)

text \<open>
  The state is reached: after the classification of a world with one opaque surface, pack 0
  is empty and pack 1 holds a material of sort 1 with the light-mapping binder.
\<close>

theorem showGlobalMaterials_divides_by_zero_witness:
  "\<exists>w m. GenerateWorldMaterials_classify example_consts two_dynamic_stages_world = Some w
     \<and> materialPacks w 0 = [] \<and> m \<in> set (materialPacks w 1)
     \<and> mat_sort m = 1 \<and> shaderBinder m = BindShaderLightMapping
     \<and> (\<exists>divisor. showGlobalMaterials_divisor example_ordinals 1 (materialPacks w) m = Some divisor
           \<and> divisor = 0 \<and> colors_index (mat_id m) divisor = None)"
proof -
  have ev: "map_option (\<lambda>w. (length (materialPacks w 0),
               map (\<lambda>m. (mat_sort m, shaderBinder m)) (materialPacks w 1)))
     (GenerateWorldMaterials_classify example_consts two_dynamic_stages_world)
     = Some (0, [(1, BindShaderGeneric3D), (1, BindShaderLightMapping)])"
    by code_simp
  then obtain w where c: "GenerateWorldMaterials_classify example_consts two_dynamic_stages_world = Some w"
    and e: "materialPacks w 0 = []"
    and v: "map (\<lambda>m. (mat_sort m, shaderBinder m)) (materialPacks w 1)
       = [(1, BindShaderGeneric3D), (1, BindShaderLightMapping)]"
    by (auto split: option.splits)
  from v have len: "length (materialPacks w 1) = 2"
    by (metis length_map length_Cons list.size(3) numeral_2_eq_2)
  define m where "m = materialPacks w 1 ! 1"
  have mem: "m \<in> set (materialPacks w 1)" using len by (simp add: m_def)
  have "(mat_sort m, shaderBinder m) = (1, BindShaderLightMapping)"
    using v len unfolding m_def
    by (metis (no_types, lifting) nth_map nth_Cons_0 nth_Cons_Suc One_nat_def lessI numeral_2_eq_2)
  then have f: "mat_sort m = 1" "shaderBinder m = BindShaderLightMapping"
    by simp_all
  from showGlobalMaterials_divides_by_zero [of 1 example_ordinals m "materialPacks w", OF _ _ f(1) _ e]
  have "\<exists>divisor. showGlobalMaterials_divisor example_ordinals 1 (materialPacks w) m = Some divisor
           \<and> divisor = 0 \<and> colors_index (mat_id m) divisor = None"
    using f(2) by (simp add: example_ordinals_def)
  with c e mem f show ?thesis by blast
qed

subsection \<open>Portal views\<close>








subsection \<open>Texture residency\<close>

lemma evict_textures_result: "evict_textures texs R = R - set texs"
  by (induction texs arbitrary: R) (auto simp: Texture_MakeNonResident_def)

lemma evict_materials_result:
  "residentTextures (evict_materials mats s)
     = residentTextures s - (\<Union>mat \<in> set mats. set (mat_textures (rs_materials s mat)))
   \<and> warnings (evict_materials mats s)
     = warnings s @ map (\<lambda>mat. MakingNonResident (mat_id (rs_materials s mat))
                              (length (mat_textures (rs_materials s mat)))) mats
   \<and> rs_materials (evict_materials mats s)
     = (\<lambda>mat. if mat \<in> set mats then (rs_materials s mat)\<lparr>texturesResident := False\<rparr>
               else rs_materials s mat)
   \<and> renderedMaterials (evict_materials mats s) = renderedMaterials s"
proof (induction mats arbitrary: s)
  case Nil
  then show ?case by simp
next
  case (Cons mat mats)
  let ?s3 = "s\<lparr>warnings := warnings s
                   @ [MakingNonResident (mat_id (rs_materials s mat))
                        (length (mat_textures (rs_materials s mat)))],
               residentTextures := evict_textures (mat_textures (rs_materials s mat)) (residentTextures s),
               rs_materials := (rs_materials s)
                   (mat := (rs_materials s mat)\<lparr>texturesResident := False\<rparr>)\<rparr>"
  have e: "evict_materials (mat # mats) s = evict_materials mats ?s3"
    by (simp add: Let_def)
  have t: "mat_textures (rs_materials ?s3 a) = mat_textures (rs_materials s a)"
    "mat_id (rs_materials ?s3 a) = mat_id (rs_materials s a)" for a
    by simp_all
  show ?case unfolding e
    apply (intro conjI)
    subgoal using Cons.IH [of ?s3, THEN conjunct1] unfolding t
      by (auto simp: evict_textures_result)
    subgoal using Cons.IH [of ?s3, THEN conjunct2, THEN conjunct1] unfolding t
      by simp
    subgoal using Cons.IH [of ?s3, THEN conjunct2, THEN conjunct2, THEN conjunct1]
      by (auto simp: fun_eq_iff)
    subgoal using Cons.IH [of ?s3, THEN conjunct2, THEN conjunct2, THEN conjunct2]
      by simp
    done
qed


text \<open>
  Claim C7, as it holds. When a texture of the material is not resident and the driver
  refuses it, the textures of all materials rendered so far are made non-resident, in
  render order, each of these materials is marked non-resident with a warning, and the
  texture is tried again on what is left. If the driver accepts it the loop goes on with
  the next texture; if not, the warning about texture space is logged and the loop ends.
  In every case the function goes on and marks the material resident.
\<close>

theorem RenderMaterial_residency_evicts_all:
  assumes "texture \<notin> residentTextures s" and "\<not> accepts (residentTextures s) texture"
  shows "residentTextures (evict_materials (renderedMaterials s) s)
           = residentTextures s - rendered_textures s
     \<and> (\<forall>mat \<in> set (renderedMaterials s).
           \<not> texturesResident (rs_materials (evict_materials (renderedMaterials s) s) mat))
     \<and> warnings (evict_materials (renderedMaterials s) s)
           = warnings s @ map (\<lambda>mat. MakingNonResident (mat_id (rs_materials s mat))
                                    (length (mat_textures (rs_materials s mat))))
                            (renderedMaterials s)
     \<and> make_resident accepts (texture # rest) s
           = (if accepts (residentTextures s - rendered_textures s) texture
              then make_resident accepts rest
                     ((evict_materials (renderedMaterials s) s)
                        \<lparr>residentTextures := insert texture (residentTextures s - rendered_textures s)\<rparr>)
              else (evict_materials (renderedMaterials s) s)
                     \<lparr>warnings := warnings (evict_materials (renderedMaterials s) s)
                                   @ [NotEnoughTextureSpace]\<rparr>)
     \<and> texturesResident (rs_materials (RenderMaterial_residency accepts material s0) material)"
proof -
  let ?s2 = "evict_materials (renderedMaterials s) s"
  note ev = evict_materials_result [of "renderedMaterials s" s]
  have r: "residentTextures ?s2 = residentTextures s - rendered_textures s"
    using ev [THEN conjunct1] by (simp add: rendered_textures_def)
  have f: "\<forall>mat \<in> set (renderedMaterials s). \<not> texturesResident (rs_materials ?s2 mat)"
    using ev [THEN conjunct2, THEN conjunct2, THEN conjunct1] by simp
  have w: "warnings ?s2 = warnings s @ map (\<lambda>mat. MakingNonResident (mat_id (rs_materials s mat))
                                    (length (mat_textures (rs_materials s mat))))
                            (renderedMaterials s)"
    using ev [THEN conjunct2, THEN conjunct1] .
  have s1: "s\<lparr>residentTextures := Texture_MakeResident accepts texture (residentTextures s)\<rparr> = s"
    using assms(2) by (simp add: Texture_MakeResident_def)
  have tn: "texture \<notin> residentTextures s - rendered_textures s"
    using assms(1) by simp
  have m: "make_resident accepts (texture # rest) s
           = (if accepts (residentTextures s - rendered_textures s) texture
              then make_resident accepts rest
                     (?s2\<lparr>residentTextures := insert texture (residentTextures s - rendered_textures s)\<rparr>)
              else ?s2\<lparr>warnings := warnings ?s2 @ [NotEnoughTextureSpace]\<rparr>)"
  proof (cases "accepts (residentTextures s - rendered_textures s) texture")
    case True
    then show ?thesis
      using assms tn by (simp add: Let_def r Texture_MakeResident_def)
  next
    case False
    then show ?thesis
      using assms tn by (simp add: Let_def r Texture_MakeResident_def)
  qed
  have t: "texturesResident (rs_materials (RenderMaterial_residency accepts material s0) material)"
    by (simp add: RenderMaterial_residency_def Let_def)
  from r f w m t show ?thesis by (intro conjI)
qed

theorem RenderMaterial_residency_evicts_all_witness:
  "30 \<notin> residentTextures residency_example
   \<and> \<not> budget 2 (residentTextures residency_example) 30
   \<and> residentTextures (evict_materials (renderedMaterials residency_example) residency_example) = {}
   \<and> residentTextures (make_resident (budget 2) [30] residency_example) = {30}
   \<and> texturesResident (rs_materials (RenderMaterial_residency (budget 2) 3 residency_example) 3)"
proof -
  have h: "30 \<notin> residentTextures residency_example"
    "\<not> budget 2 (residentTextures residency_example) 30"
    by (simp_all add: residency_example_def budget_def)
  have rt: "residentTextures residency_example - rendered_textures residency_example = {}"
    by (simp add: residency_example_def rendered_textures_def)
  note th = RenderMaterial_residency_evicts_all [where texture = 30 and s = residency_example
      and accepts = "budget 2" and rest = "[]" and material = 3 and ?s0.0 = residency_example, OF h]
  have a: "residentTextures (evict_materials (renderedMaterials residency_example) residency_example) = {}"
    using th [THEN conjunct1] unfolding rt .
  have b: "residentTextures (make_resident (budget 2) [30] residency_example) = {30}"
    using th [THEN conjunct2, THEN conjunct2, THEN conjunct2, THEN conjunct1] unfolding rt
    by (simp add: budget_def)
  have c: "texturesResident (rs_materials (RenderMaterial_residency (budget 2) 3 residency_example) 3)"
    using th [THEN conjunct2, THEN conjunct2, THEN conjunct2, THEN conjunct2] .
  from h a b c show ?thesis by (intro conjI)
qed

text \<open>
  The claim as written fails where it says that exactly enough is evicted. With a driver
  that keeps two textures, making the texture of the oldest rendered material
  non-resident leaves room for the texture 30; the texture 20 of material 2 is made
  non-resident all the same, and material 2 is marked non-resident.
\<close>

theorem RenderMaterial_residency_evicts_more_than_needed:
  "budget 2 (residentTextures residency_example
               - set (mat_textures (rs_materials residency_example 1))) 30
   \<and> 20 \<in> residentTextures residency_example
   \<and> 20 \<notin> residentTextures (RenderMaterial_residency (budget 2) 3 residency_example)
   \<and> \<not> texturesResident (rs_materials (RenderMaterial_residency (budget 2) 3 residency_example) 2)"
  by code_simp

subsection \<open>UpdateDynamicSurfaces\<close>

lemma update_stage_below:
  assumes "update_stage G U w k (data, ds, lg) = Some (data', ds', lg')"
    and "a < dynamicDrawSurfsOffset w"
  shows "data' a = data a"
proof -
  from assms(1) obtain upd m lg2 where
    "UpdateSurfaceData G U (shaders w) upd (dynamicDrawSurfsOffset w) data m ds k = Some (data', ds', lg2)"
    by (auto simp: update_stage_def Let_def split: option.splits if_splits)
  from UpdateSurfaceData_result(5) [OF this] assms(2) show ?thesis by simp
qed

lemma update_stages_below:
  assumes "update_stages G U w ks (data, ds, lg) = Some (data', ds', lg')"
    and "a < dynamicDrawSurfsOffset w"
  shows "data' a = data a"
  using assms
proof (induction ks arbitrary: data ds lg)
  case Nil
  then show ?case by simp
next
  case (Cons k ks)
  from Cons.prems(1) obtain data1 ds1 lg1 where
    s: "update_stage G U w k (data, ds, lg) = Some (data1, ds1, lg1)"
    and r: "update_stages G U w ks (data1, ds1, lg1) = Some (data', ds', lg')"
    by (auto split: option.splits)
  from Cons.IH [OF r Cons.prems(2)] update_stage_below [OF s Cons.prems(2)]
  show ?case by simp
qed

lemma update_drawSurfs_below:
  assumes "update_drawSurfs G U w dss (data, lg) = Some (dss', data', lg')"
    and "a < dynamicDrawSurfsOffset w"
  shows "data' a = data a"
  using assms
proof (induction dss arbitrary: data lg dss')
  case Nil
  then show ?case by simp
next
  case (Cons d dss)
  from Cons.prems(1) obtain psh data1 ds1 lg1 dss1 where
    s: "update_stages G U w [0 ..< length (stages (shaders w psh))] (data, d, lg)
          = Some (data1, ds1, lg1)"
    and r: "update_drawSurfs G U w dss (data1, lg1) = Some (dss1, data', lg')"
    by (auto split: option.splits)
  from Cons.IH [OF r Cons.prems(2)] update_stages_below [OF s Cons.prems(2)]
  show ?case by simp
qed

text \<open>
  \<^verbatim>\<open>UpdateDynamicSurfaces\<close> changes no word of the buffer below
  \<^verbatim>\<open>dynamicDrawSurfsOffset\<close>.
\<close>

lemma UpdateDynamicSurfaces_below_unchanged:
  assumes "UpdateDynamicSurfaces G U w = Some w'" and "a < dynamicDrawSurfsOffset w"
  shows "materialsData w' a = materialsData w a"
proof (cases "dynamicDrawSurfsSize w = 0")
  case True
  with assms(1) show ?thesis by (simp add: UpdateDynamicSurfaces_def)
next
  case False
  let ?d0 = "memset_zero (materialsData w) (dynamicDrawSurfsOffset w) (dynamicDrawSurfsSize w)"
  from assms(1) False obtain dss' data' lg' where
    r: "update_drawSurfs G U w (dynamicDrawSurfs w) (?d0, ssbo_writes w) = Some (dss', data', lg')"
    and w': "materialsData w' = data'"
    by (auto simp: UpdateDynamicSurfaces_def Let_def split: option.splits)
  from update_drawSurfs_below [OF r assms(2)] assms(2) show ?thesis
    by (simp add: w' memset_zero_def)
qed

text \<open>
  Claim C6 at a concrete world. After \<^verbatim>\<open>GenerateWorldMaterials\<close> the mapped range of
  \<^verbatim>\<open>UpdateDynamicSurfaces\<close> is the words 9 to 11 and the buffer has 12 words. The copy
  of the first surface in \<^verbatim>\<open>dynamicDrawSurfs\<close> was taken while its material of stage 0
  was filled, before stage 1 was initialised. \<^verbatim>\<open>UpdateDynamicSurfaces\<close> therefore writes
  the static stage 1 of the copy, four words at the start of the mapped range: word 12,
  outside the range, is changed.
\<close>

theorem UpdateDynamicSurfaces_writes_past_mapped_range:
  "map_option (\<lambda>w. (dynamicDrawSurfsOffset w, dynamicDrawSurfsSize w, materialsSize w,
                    length (ssbo_writes w), materialsData w 12))
     (GenerateWorldMaterials example_consts example_paddedSize example_uniforms
        dynamic_then_static_world)
     = Some (9, 3, 12, 3, 0)
   \<and> map_option (\<lambda>w. (map (\<lambda>e. (w_stage e, w_dynamic e, w_offset e, w_paddedSize e))
                           (drop 3 (ssbo_writes w)),
                       materialsData w 12))
     (Option.bind (GenerateWorldMaterials example_consts example_paddedSize example_uniforms
                     dynamic_then_static_world)
        (UpdateDynamicSurfaces example_paddedSize example_uniforms))
     = Some ([(0, True, 9, 3), (1, False, 9, 4)], 1)"
  by code_simp

end
